theory Spec2Isabelle
  imports Complex_Main "HOL-Library.Word" "HOL-Library.Multiset"
begin

text \<open>
  A shallow embedding of the folder synchronisation service of SchedulingAssistant
  (FolderSyncService: file naming, \<^verbatim>\<open>scanFolder\<close>, working files, backups, the merge
  lock, the solo-user checkpoint) and of the two comparisons made by its merge dialogs
  (\<^verbatim>\<open>analyzeDbDifferences\<close>, \<^verbatim>\<open>getDifferences\<close>). The definitions come first, one per
  function of the source and under its name; the properties follow, grouped by function.
  The clock, the time zone of the machine and the built-ins whose tables are not in the
  repository (\<^verbatim>\<open>toLowerCase\<close>, \<^verbatim>\<open>JSON.parse\<close>, \<^verbatim>\<open>JSON.stringify\<close>, the parser of date
  strings, the printing of numbers and functions) are parameters of the functions that use
  them; the calendar of ECMAScript, on which the names and the dates of the backups depend,
  is written out.
\<close>

section \<open>JavaScript strings\<close>

text \<open>
  A JavaScript string is a sequence of UTF-16 code units. The regular expressions of
  FolderSyncService have no \<^verbatim>\<open>u\<close> flag, so they match code unit by code unit.
  \<open>js\<close> turns an ASCII literal of the source into such a string.
\<close>

type_synonym jschar = "16 word"
type_synonym jsstring = "jschar list"

definition js :: "string \<Rightarrow> jsstring" where
  "js s = map of_char s"

text \<open>
  The atom \<^verbatim>\<open>.\<close> of a regular expression (without the \<^verbatim>\<open>s\<close> flag) matches every
  code unit but the four line terminators of ECMAScript: LF, CR, U+2028 and U+2029.
\<close>

definition isLineTerminator :: "jschar \<Rightarrow> bool" where
  "isLineTerminator c = (c = 0x000A \<or> c = 0x000D \<or> c = 0x2028 \<or> c = 0x2029)"

text \<open>\<^verbatim>\<open>.+\<close> anchored on both sides: one code unit at least, no line terminator.\<close>

definition matchDotPlus :: "jsstring \<Rightarrow> bool" where
  "matchDotPlus s = (s \<noteq> [] \<and> list_all (\<lambda>c. \<not> isLineTerminator c) s)"

definition stripPrefix :: "jsstring \<Rightarrow> jsstring \<Rightarrow> jsstring option" where
  "stripPrefix p s = (if take (length p) s = p then Some (drop (length p) s) else None)"

definition stripSuffix :: "jsstring \<Rightarrow> jsstring \<Rightarrow> jsstring option" where
  "stripSuffix p s =
     (if length p \<le> length s \<and> drop (length s - length p) s = p
      then Some (take (length s - length p) s) else None)"

text \<open>\<^verbatim>\<open>name.includes(sub)\<close>: \<open>sub\<close> occurs in \<open>name\<close> at some position.\<close>

fun str_includes :: "jsstring \<Rightarrow> jsstring \<Rightarrow> bool" where
  "str_includes [] sub = (sub = [])"
| "str_includes (c # cs) sub = (take (length sub) (c # cs) = sub \<or> str_includes cs sub)"

text \<open>Template literals and \<^verbatim>\<open>String\<close> print a whole number in decimal.\<close>

function showNat :: "nat \<Rightarrow> jsstring" where
  "showNat n =
     (if n < 10 then [of_nat (48 + n)] else showNat (n div 10) @ [of_nat (48 + n mod 10)])"
  by pat_completeness auto
termination
  by (relation "measure id") auto

declare showNat.simps [simp del]

definition showInt :: "int \<Rightarrow> jsstring" where
  "showInt i = (if i < 0 then js ''-'' @ showNat (nat (- i)) else showNat (nat i))"

text \<open>
  \<^verbatim>\<open>s.padStart(n, '0')\<close>, and \<^verbatim>\<open>s.split(sep)[0]\<close> for a separator of one code unit: what
  comes before the first occurrence of the separator, the whole string when there is none.
\<close>

definition padStart :: "nat \<Rightarrow> jsstring \<Rightarrow> jsstring" where
  "padStart n s = replicate (n - length s) 0x30 @ s"

definition split0 :: "jschar \<Rightarrow> jsstring \<Rightarrow> jsstring" where
  "split0 sep s = takeWhile (\<lambda>c. c \<noteq> sep) s"

section \<open>Time values and calendar dates\<close>

text \<open>
  A time value is a number of milliseconds since 1 January 1970, 00:00 UTC. \<open>Day\<close>,
  \<open>DayFromYear\<close>, \<open>InLeapYear\<close>, \<open>YearFromTime\<close>, \<open>DayWithinYear\<close>, \<open>MonthFromTime\<close>,
  \<open>DateFromTime\<close>, \<open>HourFromTime\<close>, \<open>MinFromTime\<close>, \<open>SecFromTime\<close>, \<open>msFromTime\<close>,
  \<open>MakeDay\<close> and \<open>MakeDate\<close> are the abstract operations of ECMAScript of these names, on
  which \<^verbatim>\<open>toISOString\<close> and the Date constructor are built. \<open>DaysBeforeMonth mn leap\<close> is
  the number of days of a year that come before its month \<open>mn\<close> (0 is January).
\<close>

definition msPerDay :: int where
  "msPerDay = 24 * 60 * 60 * 1000"

definition Day :: "int \<Rightarrow> int" where
  "Day t = t div msPerDay"

definition DayFromYear :: "int \<Rightarrow> int" where
  "DayFromYear y =
     365 * (y - 1970) + (y - 1969) div 4 - (y - 1901) div 100 + (y - 1601) div 400"

definition InLeapYear :: "int \<Rightarrow> bool" where
  "InLeapYear y = ((y mod 4 = 0 \<and> y mod 100 \<noteq> 0) \<or> y mod 400 = 0)"

definition DaysBeforeMonth :: "int \<Rightarrow> bool \<Rightarrow> int" where
  "DaysBeforeMonth mn leap =
     [0, 31, 59, 90, 120, 151, 181, 212, 243, 273, 304, 334] ! nat mn
       + (if leap \<and> 2 \<le> mn then 1 else 0)"

definition MakeDay :: "int \<Rightarrow> int \<Rightarrow> int \<Rightarrow> int" where
  "MakeDay year month dt =
     (let ym = year + month div 12; mn = month mod 12
      in DayFromYear ym + DaysBeforeMonth mn (InLeapYear ym) + dt - 1)"

definition MakeDate :: "int \<Rightarrow> int \<Rightarrow> int" where
  "MakeDate day time = day * msPerDay + time"

text \<open>
  \<open>YearFromTime t\<close> is the year \<open>y\<close> with \<open>DayFromYear y \<le> Day t < DayFromYear (y + 1)\<close>.
  It is found by going up, year by year, from a year that is not after it: a year has at
  most 366 days and at least 365 (that the search ends on the year described is
  \<open>YearFromTime_bounds\<close> below).
\<close>

function yearSearch :: "int \<Rightarrow> int \<Rightarrow> int" where
  "yearSearch day y = (if DayFromYear (y + 1) \<le> day then yearSearch day (y + 1) else y)"
  by pat_completeness auto
termination
proof (relation "measure (\<lambda>(day, y). nat (day - DayFromYear (y + 1) + 1))")
  show "wf (measure (\<lambda>(day, y). nat (day - DayFromYear (y + 1) + 1)))"
    by simp
next
  fix day y :: int
  assume le: "DayFromYear (y + 1) \<le> day"
  have a: "(y + 1 - 1969) div 4 \<le> (y + 1 + 1 - 1969) div 4"
    by (rule zdiv_mono1) simp_all
  have "(y + 1 + 1 - 1901) div 100 \<le> (y + 1 - 1901 + 100) div 100"
    by (rule zdiv_mono1) simp_all
  also have "\<dots> = (y + 1 - 1901) div 100 + 1"
    by (rule div_add_self2) simp
  finally have b: "(y + 1 + 1 - 1901) div 100 \<le> (y + 1 - 1901) div 100 + 1" .
  have c: "(y + 1 - 1601) div 400 \<le> (y + 1 + 1 - 1601) div 400"
    by (rule zdiv_mono1) simp_all
  have d: "y + 1 - 1970 < y + 1 + 1 - 1970"
    by simp
  have "\<And>Y Y' A A' B B' C C' :: int.
      A \<le> A' \<Longrightarrow> B' \<le> B + 1 \<Longrightarrow> C \<le> C' \<Longrightarrow> Y < Y' \<Longrightarrow>
      365 * Y + A - B + C < 365 * Y' + A' - B' + C'"
    by linarith
  from this [OF a b c d] have "DayFromYear (y + 1) < DayFromYear (y + 1 + 1)"
    unfolding DayFromYear_def .
  with le show "((day, y + 1), (day, y)) \<in> measure (\<lambda>(day, y). nat (day - DayFromYear (y + 1) + 1))"
    by simp
qed

declare yearSearch.simps [simp del]

definition YearFromTime :: "int \<Rightarrow> int" where
  "YearFromTime t =
     (let day = Day t
      in yearSearch day (1970 + (if 0 \<le> day then day div 366 else day div 365)))"

definition DayWithinYear :: "int \<Rightarrow> int" where
  "DayWithinYear t = Day t - DayFromYear (YearFromTime t)"

definition MonthFromTime :: "int \<Rightarrow> int" where
  "MonthFromTime t =
     (let d = DayWithinYear t;
          leap = (if InLeapYear (YearFromTime t) then 1 else 0)
      in if d < 31 then 0
         else if d < 59 + leap then 1
         else if d < 90 + leap then 2
         else if d < 120 + leap then 3
         else if d < 151 + leap then 4
         else if d < 181 + leap then 5
         else if d < 212 + leap then 6
         else if d < 243 + leap then 7
         else if d < 273 + leap then 8
         else if d < 304 + leap then 9
         else if d < 334 + leap then 10
         else 11)"

definition DateFromTime :: "int \<Rightarrow> int" where
  "DateFromTime t =
     DayWithinYear t - DaysBeforeMonth (MonthFromTime t) (InLeapYear (YearFromTime t)) + 1"

definition HourFromTime :: "int \<Rightarrow> int" where
  "HourFromTime t = (t div (60 * 60 * 1000)) mod 24"

definition MinFromTime :: "int \<Rightarrow> int" where
  "MinFromTime t = (t div (60 * 1000)) mod 60"

definition SecFromTime :: "int \<Rightarrow> int" where
  "SecFromTime t = (t div 1000) mod 60"

definition msFromTime :: "int \<Rightarrow> int" where
  "msFromTime t = t mod 1000"

text \<open>
  \<^verbatim>\<open>toISOString\<close> of a Date with time value \<open>t\<close>: the UTC date and time as
  \<^verbatim>\<open>YYYY-MM-DDTHH:mm:ss.sssZ\<close>, the year in four digits from 0 to 9999 and with a sign and
  six digits otherwise.
\<close>

definition toISOString :: "int \<Rightarrow> jsstring" where
  "toISOString t =
     (let y = YearFromTime t
      in (if 0 \<le> y \<and> y \<le> 9999 then padStart 4 (showNat (nat y))
          else (if y < 0 then js ''-'' else js ''+'') @ padStart 6 (showNat (nat \<bar>y\<bar>)))
         @ js ''-'' @ padStart 2 (showNat (nat (MonthFromTime t + 1)))
         @ js ''-'' @ padStart 2 (showNat (nat (DateFromTime t)))
         @ js ''T'' @ padStart 2 (showNat (nat (HourFromTime t)))
         @ js '':'' @ padStart 2 (showNat (nat (MinFromTime t)))
         @ js '':'' @ padStart 2 (showNat (nat (SecFromTime t)))
         @ js ''.'' @ padStart 3 (showNat (nat (msFromTime t)))
         @ js ''Z'')"

text \<open>
  The time zone of the machine: \<open>LocalTZA t isUTC\<close> is the offset of local time from UTC,
  in milliseconds, at the time value \<open>t\<close>, which is read as UTC when \<open>isUTC\<close> holds and as
  local time otherwise. Daylight saving makes the offset depend on \<open>t\<close>. The zone is a
  parameter of the functions that use local time. \<open>TimeClip\<close> gives NaN (\<open>None\<close>: the time
  value of an Invalid Date) outside the range of time values.
\<close>

type_synonym timevalue = "int option"

definition LocalTime :: "(int \<Rightarrow> bool \<Rightarrow> int) \<Rightarrow> int \<Rightarrow> int" where
  "LocalTime LocalTZA t = t + LocalTZA t True"

definition UTC :: "(int \<Rightarrow> bool \<Rightarrow> int) \<Rightarrow> int \<Rightarrow> int" where
  "UTC LocalTZA t = t - LocalTZA t False"

definition TimeClip :: "int \<Rightarrow> timevalue" where
  "TimeClip t = (if \<bar>t\<bar> > 8640000000000000 then None else Some t)"

section \<open>File naming (FolderSyncService)\<close>

definition BASE_FILE_NAME :: jsstring where
  "BASE_FILE_NAME = js ''schedule.base''"

definition BACKUP_EXTENSION :: jsstring where
  "BACKUP_EXTENSION = js ''.bak''"

definition MERGE_LOCK_FILE :: jsstring where
  "MERGE_LOCK_FILE = js ''schedule.merge-lock''"

text \<open>
  \<^verbatim>\<open>WORKING_FILE_PATTERN = /^schedule\.(.+)\.db$/\<close>. The pattern is anchored at both
  ends, its prefix and its suffix are literals, so the only way to match is: the name starts
  with \<^verbatim>\<open>schedule.\<close>, ends with \<^verbatim>\<open>.db\<close>, and what lies between is matched by
  \<^verbatim>\<open>.+\<close>; that middle part is group 1. The result is \<open>match[1]\<close>, or \<open>None\<close> for
  \<^verbatim>\<open>null\<close>.
\<close>

definition WORKING_FILE_PATTERN :: "jsstring \<Rightarrow> jsstring option" where
  "WORKING_FILE_PATTERN name =
     (case stripPrefix (js ''schedule.'') name of
        None \<Rightarrow> None
      | Some rest \<Rightarrow>
          (case stripSuffix (js ''.db'') rest of
             None \<Rightarrow> None
           | Some mid \<Rightarrow> if matchDotPlus mid then Some mid else None))"

definition extractEmailFromFileName :: "jsstring \<Rightarrow> jsstring option" where
  "extractEmailFromFileName fileName = WORKING_FILE_PATTERN fileName"

definition createWorkingFileName :: "jsstring \<Rightarrow> jsstring" where
  "createWorkingFileName em = js ''schedule.'' @ em @ js ''.db''"

text \<open>
  \<^verbatim>\<open>createBackupFileName\<close> reads the clock: \<open>now\<close> is the time value of \<^verbatim>\<open>new Date()\<close>,
  and \<open>today\<close> is the part of its \<^verbatim>\<open>toISOString()\<close> before the \<^verbatim>\<open>T\<close>, the UTC date.
\<close>

definition createBackupFileName :: "int \<Rightarrow> jsstring \<Rightarrow> jsstring" where
  "createBackupFileName now workingFileName =
     (let today = split0 0x54 (toISOString now)
      in workingFileName @ BACKUP_EXTENSION @ js ''.'' @ today)"


section \<open>The shared folder and its storage operations\<close>

text \<open>
  The folder is what \<^verbatim>\<open>folderHandle.entries()\<close> enumerates: names with their entries, in
  enumeration order. A file handle is modelled by the name it was obtained for. Every
  storage call may be rejected by the environment: \<open>fails op\<close> says that the call \<open>op\<close>
  raises; a rejected call leaves the folder as it was.
  A writable stream (\<^verbatim>\<open>createWritable\<close>, \<^verbatim>\<open>write\<close>, \<^verbatim>\<open>close\<close>) replaces the contents
  of its file when it is closed.
\<close>

type_synonym bytes = "8 word list"

datatype entry = FileEntry bytes | DirectoryEntry

type_synonym folder = "(jsstring \<times> entry) list"

datatype io_op =
    GetFile jsstring
  | GetFileHandle jsstring
  | CreateWritable jsstring
  | WriteData jsstring
  | CloseStream jsstring
  | RemoveEntry jsstring

datatype error = NotFoundError | TypeMismatchError | IOError

fun isFile :: "entry \<Rightarrow> bool" where
  "isFile (FileEntry _) = True"
| "isFile DirectoryEntry = False"

definition getFile :: "(io_op \<Rightarrow> bool) \<Rightarrow> folder \<Rightarrow> jsstring \<Rightarrow> error + bytes" where
  "getFile fails fld h =
     (if fails (GetFile h) then Inl IOError
      else case map_of fld h of
             Some (FileEntry b) \<Rightarrow> Inr b
           | Some DirectoryEntry \<Rightarrow> Inl NotFoundError
           | None \<Rightarrow> Inl NotFoundError)"

definition getFileHandle ::
  "(io_op \<Rightarrow> bool) \<Rightarrow> folder \<Rightarrow> jsstring \<Rightarrow> bool \<Rightarrow> (error + jsstring) \<times> folder" where
  "getFileHandle fails fld nm create =
     (if fails (GetFileHandle nm) then (Inl IOError, fld)
      else case map_of fld nm of
             Some (FileEntry b) \<Rightarrow> (Inr nm, fld)
           | Some DirectoryEntry \<Rightarrow> (Inl TypeMismatchError, fld)
           | None \<Rightarrow>
               if create then (Inr nm, fld @ [(nm, FileEntry [])])
               else (Inl NotFoundError, fld))"

fun setContents :: "jsstring \<Rightarrow> bytes \<Rightarrow> folder \<Rightarrow> folder" where
  "setContents h b [] = []"
| "setContents h b ((nm, e) # fld) =
     (if nm = h then (nm, FileEntry b) # fld else (nm, e) # setContents h b fld)"

definition writeThroughStream ::
  "(io_op \<Rightarrow> bool) \<Rightarrow> folder \<Rightarrow> jsstring \<Rightarrow> bytes \<Rightarrow> (error + unit) \<times> folder" where
  "writeThroughStream fails fld h b =
     (if fails (CreateWritable h) then (Inl IOError, fld)
      else case map_of fld h of
             None \<Rightarrow> (Inl NotFoundError, fld)
           | Some DirectoryEntry \<Rightarrow> (Inl NotFoundError, fld)
           | Some (FileEntry old) \<Rightarrow>
               if fails (WriteData h) then (Inl IOError, fld)
               else if fails (CloseStream h) then (Inl IOError, fld)
               else (Inr (), setContents h b fld))"

definition removeEntry ::
  "(io_op \<Rightarrow> bool) \<Rightarrow> folder \<Rightarrow> jsstring \<Rightarrow> (error + unit) \<times> folder" where
  "removeEntry fails fld nm =
     (if fails (RemoveEntry nm) then (Inl IOError, fld)
      else case map_of fld nm of
             None \<Rightarrow> (Inl NotFoundError, fld)
           | Some e \<Rightarrow> (Inr (), filter (\<lambda>(n, e). n \<noteq> nm) fld))"

text \<open>The environment that rejects no call.\<close>

definition noFaults :: "io_op \<Rightarrow> bool" where
  "noFaults op = False"

text \<open>The environment that rejects one call, \<open>bad\<close>, and no other.\<close>

definition failsOn :: "io_op \<Rightarrow> io_op \<Rightarrow> bool" where
  "failsOn bad op = (op = bad)"

section \<open>scanFolder\<close>

text \<open>
  The interfaces of FolderSyncService. \<open>MergeLockInfo\<close> shares two field names with the
  results of the scan; it comes first, so that the plain names are those of the scan.
\<close>

record MergeLockInfo =
  email :: jsstring
  startedAt :: jsstring
  workingFiles :: "jsstring list"

record WorkingFileInfo =
  handle :: jsstring
  email :: jsstring
  fileName :: jsstring

record FolderScanResult =
  baseFile :: "jsstring option"
  workingFiles :: "WorkingFileInfo list"
  backupFiles :: "jsstring list"
  needsMerge :: bool
  myWorkingFile :: "jsstring option"

text \<open>
  The body of the loop over the entries. \<open>toLowerCase\<close> is the built-in
  \<^verbatim>\<open>String.prototype.toLowerCase\<close>, taken as a parameter: its Unicode case tables are
  not part of the repository. An empty string is falsy, so \<^verbatim>\<open>if (email)\<close> asks for a
  match with a non-empty group.
\<close>

definition checkBackup :: "jsstring \<Rightarrow> FolderScanResult \<Rightarrow> FolderScanResult" where
  "checkBackup nm r =
     (if str_includes nm BACKUP_EXTENSION then r\<lparr>backupFiles := backupFiles r @ [nm]\<rparr> else r)"

definition scanEntry ::
  "(jsstring \<Rightarrow> jsstring) \<Rightarrow> jsstring \<Rightarrow> jsstring \<times> entry \<Rightarrow> FolderScanResult \<Rightarrow> FolderScanResult" where
  "scanEntry toLowerCase currentUserEmail ne r =
     (case ne of (nm, e) \<Rightarrow>
        if \<not> isFile e then r
        else if nm = BASE_FILE_NAME then r\<lparr>baseFile := Some nm\<rparr>
        else
          case extractEmailFromFileName nm of
            None \<Rightarrow> checkBackup nm r
          | Some em \<Rightarrow>
              if em = [] then checkBackup nm r
              else r\<lparr>workingFiles :=
                       workingFiles r @ [\<lparr>handle = nm, email = em, fileName = nm\<rparr>],
                     myWorkingFile :=
                       (if toLowerCase em = toLowerCase currentUserEmail then Some nm
                        else myWorkingFile r)\<rparr>)"

definition scanFolder ::
  "(jsstring \<Rightarrow> jsstring) \<Rightarrow> folder \<Rightarrow> jsstring \<Rightarrow> FolderScanResult" where
  "scanFolder toLowerCase folderHandle currentUserEmail =
     (let r = fold (scanEntry toLowerCase currentUserEmail) folderHandle
                \<lparr>baseFile = None, workingFiles = [], backupFiles = [],
                 needsMerge = False, myWorkingFile = None\<rparr>;
          othersWorkingFiles =
            filter (\<lambda>wf. toLowerCase (email wf) \<noteq> toLowerCase currentUserEmail)
              (workingFiles r)
      in r\<lparr>needsMerge := (length othersWorkingFiles > 0)\<rparr>)"


section \<open>Working files, base and backups\<close>

text \<open>
  Each function takes the folder and returns the value it resolves to, or the error it
  rejects with, together with the folder it leaves behind.
\<close>

definition createWorkingFileFromBase ::
  "(io_op \<Rightarrow> bool) \<Rightarrow> folder \<Rightarrow> jsstring \<Rightarrow> jsstring \<Rightarrow> (error + jsstring) \<times> folder" where
  "createWorkingFileFromBase fails folderHandle baseHandle em =
     (let workingFileName = createWorkingFileName em in
      case getFile fails folderHandle baseHandle of
        Inl err \<Rightarrow> (Inl err, folderHandle)
      | Inr baseData \<Rightarrow>
          (case getFileHandle fails folderHandle workingFileName True of
             (Inl err, fld1) \<Rightarrow> (Inl err, fld1)
           | (Inr workingHandle, fld1) \<Rightarrow>
               (case writeThroughStream fails fld1 workingHandle baseData of
                  (Inl err, fld2) \<Rightarrow> (Inl err, fld2)
                | (Inr u, fld2) \<Rightarrow> (Inr workingHandle, fld2))))"

text \<open>
  \<^verbatim>\<open>updateBase\<close> writes the merged bytes through a stream on the base handle. What a
  reader in another process sees while the stream is open is decided by the browser's
  implementation of the stream, and is not expressed by a function from folder to folder
  (C9).
\<close>

definition updateBase ::
  "(io_op \<Rightarrow> bool) \<Rightarrow> folder \<Rightarrow> jsstring \<Rightarrow> bytes \<Rightarrow> (error + unit) \<times> folder" where
  "updateBase fails fld baseHandle mergedData =
     writeThroughStream fails fld baseHandle mergedData"

definition archiveWorkingFile ::
  "(io_op \<Rightarrow> bool) \<Rightarrow> int \<Rightarrow> folder \<Rightarrow> WorkingFileInfo \<Rightarrow> (error + unit) \<times> folder" where
  "archiveWorkingFile fails now folderHandle workingFile =
     (let backupFileName = createBackupFileName now (fileName workingFile) in
      case getFile fails folderHandle (handle workingFile) of
        Inl err \<Rightarrow> (Inl err, folderHandle)
      | Inr dat \<Rightarrow>
          (case getFileHandle fails folderHandle backupFileName True of
             (Inl err, fld1) \<Rightarrow> (Inl err, fld1)
           | (Inr backupHandle, fld1) \<Rightarrow>
               (case writeThroughStream fails fld1 backupHandle dat of
                  (Inl err, fld2) \<Rightarrow> (Inl err, fld2)
                | (Inr u, fld2) \<Rightarrow> removeEntry fails fld2 (fileName workingFile))))"

section \<open>Backup retention\<close>

text \<open>
  \<^verbatim>\<open>BACKUP_FILE_PATTERN = /^schedule\..+\.db\.bak\.(\d{4}-\d{2}-\d{2})$/\<close>: after the
  literal prefix come a non-empty part without line terminator, the literal
  \<^verbatim>\<open>.db.bak.\<close> and ten code units of the shape \<^verbatim>\<open>dddd-dd-dd\<close>, which are group 1. The
  date has a fixed width and the pattern is anchored, so a name splits in one way only.
\<close>

definition isDigit :: "jschar \<Rightarrow> bool" where
  "isDigit c = (0x30 \<le> c \<and> c \<le> 0x39)"

fun isDateShape :: "jsstring \<Rightarrow> bool" where
  "isDateShape [y1, y2, y3, y4, h1, m1, m2, h2, d1, d2] =
     (isDigit y1 \<and> isDigit y2 \<and> isDigit y3 \<and> isDigit y4 \<and> h1 = 0x2D \<and>
      isDigit m1 \<and> isDigit m2 \<and> h2 = 0x2D \<and> isDigit d1 \<and> isDigit d2)"
| "isDateShape _ = False"

definition BACKUP_FILE_PATTERN :: "jsstring \<Rightarrow> jsstring option" where
  "BACKUP_FILE_PATTERN nm =
     (case stripPrefix (js ''schedule.'') nm of
        None \<Rightarrow> None
      | Some rest \<Rightarrow>
          if length rest < 10 then None
          else
            let dateStr = drop (length rest - 10) rest in
            case stripSuffix (js ''.db.bak.'') (take (length rest - 10) rest) of
              None \<Rightarrow> None
            | Some mid \<Rightarrow>
                if matchDotPlus mid \<and> isDateShape dateStr then Some dateStr else None)"

text \<open>\<^verbatim>\<open>Number\<close> on a string of decimal digits.\<close>

definition Number :: "jsstring \<Rightarrow> int" where
  "Number ds = foldl (\<lambda>n c. 10 * n + (uint c - 48)) 0 ds"

text \<open>
  The Date constructor \<^verbatim>\<open>new Date(year, monthIndex, day)\<close> of ECMAScript, in time values:
  a year from 0 to 99 means 1900 + year, \<open>MakeDay\<close> carries a month index outside 0..11
  into the year and counts the day of the month on from the first of the month, \<open>UTC\<close>
  turns the local midnight found into UTC with the offset in force at that local time,
  and \<open>TimeClip\<close> checks the range.
\<close>

definition newDate :: "(int \<Rightarrow> bool \<Rightarrow> int) \<Rightarrow> int \<Rightarrow> int \<Rightarrow> int \<Rightarrow> timevalue" where
  "newDate LocalTZA year monthIndex day =
     (let yr = (if 0 \<le> year \<and> year \<le> 99 then 1900 + year else year)
      in TimeClip (UTC LocalTZA (MakeDate (MakeDay yr monthIndex day) 0)))"

text \<open>
  \<^verbatim>\<open>parseBackupDate\<close> gives \<^verbatim>\<open>null\<close> (the outer \<open>None\<close>) for a name that does not match,
  and otherwise a Date, by its time value.
\<close>

definition parseBackupDate :: "(int \<Rightarrow> bool \<Rightarrow> int) \<Rightarrow> jsstring \<Rightarrow> timevalue option" where
  "parseBackupDate LocalTZA fileName' =
     (case BACKUP_FILE_PATTERN fileName' of
        None \<Rightarrow> None
      | Some dateStr \<Rightarrow>
          let year = Number (take 4 dateStr);
              month = Number (take 2 (drop 5 dateStr));
              day = Number (take 2 (drop 8 dateStr))
          in Some (newDate LocalTZA year (month - 1) day))"

text \<open>\<^verbatim>\<open>a < b\<close> on two Dates compares their time values; it is false when one is NaN.\<close>

definition dateLess :: "timevalue \<Rightarrow> timevalue \<Rightarrow> bool" where
  "dateLess a b = (case a of None \<Rightarrow> False | Some x \<Rightarrow> (case b of None \<Rightarrow> False | Some y \<Rightarrow> x < y))"

text \<open>
  The sweep of \<^verbatim>\<open>cleanupOldBackups\<close>: \<open>now\<close> is the clock, \<open>cutoffDate\<close> the Date
  \<open>maxAgeDays\<close> days before it. The loop runs over the entries found, carries the
  folder and the count, and goes on after a removal that was rejected.
\<close>

definition cleanupEntry ::
  "(io_op \<Rightarrow> bool) \<Rightarrow> (int \<Rightarrow> bool \<Rightarrow> int) \<Rightarrow> timevalue \<Rightarrow> jsstring \<times> entry \<Rightarrow>
     folder \<times> nat \<Rightarrow> folder \<times> nat" where
  "cleanupEntry fails LocalTZA cutoffDate ne st =
     (case ne of (nm, e) \<Rightarrow>
        if \<not> isFile e then st
        else if \<not> str_includes nm BACKUP_EXTENSION then st
        else case parseBackupDate LocalTZA nm of
               None \<Rightarrow> st
             | Some backupDate \<Rightarrow>
                 if dateLess backupDate cutoffDate then
                   (case removeEntry fails (fst st) nm of
                      (Inr u, fld') \<Rightarrow> (fld', snd st + 1)
                    | (Inl err, fld') \<Rightarrow> (fld', snd st))
                 else st)"

definition cleanupOldBackups ::
  "(io_op \<Rightarrow> bool) \<Rightarrow> (int \<Rightarrow> bool \<Rightarrow> int) \<Rightarrow> int \<Rightarrow> folder \<Rightarrow> int \<Rightarrow> folder \<times> nat" where
  "cleanupOldBackups fails LocalTZA now folderHandle maxAgeDays =
     (let cutoffDate = TimeClip (now - maxAgeDays * 24 * 60 * 60 * 1000)
      in fold (cleanupEntry fails LocalTZA cutoffDate) folderHandle (folderHandle, 0))"

text \<open>
  The three tests an entry passes before the loop body calls \<^verbatim>\<open>removeEntry\<close>: it is a
  file, its name includes the backup extension, and its name gives a date before the
  cutoff.
\<close>

definition isOldBackup ::
  "(int \<Rightarrow> bool \<Rightarrow> int) \<Rightarrow> timevalue \<Rightarrow> jsstring \<times> entry \<Rightarrow> bool" where
  "isOldBackup LocalTZA cutoffDate ne =
     (case ne of (nm, e) \<Rightarrow>
        isFile e \<and> str_includes nm BACKUP_EXTENSION \<and>
        (case parseBackupDate LocalTZA nm of
           None \<Rightarrow> False
         | Some backupDate \<Rightarrow> dateLess backupDate cutoffDate))"

text \<open>
  Two zones: UTC, in which the date of a name is read as it is written, and, for the
  examples, New York in 2025, five hours behind UTC and four from 9 March, 2:00 local
  time (07:00 UTC), to 2 November, 2:00 local time (06:00 UTC). A local time that the
  clocks skip or show twice is read with the offset before the change.
\<close>

definition zoneUTC :: "int \<Rightarrow> bool \<Rightarrow> int" where
  "zoneUTC t isUTC = 0"

definition zoneNewYork2025 :: "int \<Rightarrow> bool \<Rightarrow> int" where
  "zoneNewYork2025 t isUTC =
     (if isUTC
      then (if 1741503600000 \<le> t \<and> t < 1762063200000 then - 14400000 else - 18000000)
      else (if 1741489200000 \<le> t \<and> t < 1762048800000 then - 14400000 else - 18000000))"

section \<open>Solo-user checkpoint\<close>

text \<open>
  \<open>dateParse s\<close> is the time value of \<^verbatim>\<open>new Date(s)\<close>, \<open>None\<close> when the string does
  not parse (an Invalid Date, whose time value is NaN): the constructor does not throw, so
  the \<^verbatim>\<open>catch\<close> branch of the source is never entered, and every comparison with NaN is
  false. \<open>maxDays\<close> is a whole number of days; the quotient is exact.
\<close>

definition shouldCheckpoint ::
  "(jsstring \<Rightarrow> int option) \<Rightarrow> int \<Rightarrow> jsstring option \<Rightarrow> int \<Rightarrow> bool" where
  "shouldCheckpoint dateParse now lastCheckpointStr maxDays =
     (case lastCheckpointStr of
        None \<Rightarrow> True
      | Some s \<Rightarrow>
          if s = [] then True
          else case dateParse s of
                 None \<Rightarrow> False
               | Some lastCheckpoint \<Rightarrow>
                   let daysSince =
                     (of_int (now - lastCheckpoint) :: rat) / of_int (24 * 60 * 60 * 1000)
                   in daysSince \<ge> of_int maxDays)"

section \<open>The merge lock\<close>

definition removeMergeLock :: "(io_op \<Rightarrow> bool) \<Rightarrow> folder \<Rightarrow> folder" where
  "removeMergeLock fails folderHandle =
     (case removeEntry fails folderHandle MERGE_LOCK_FILE of
        (Inr u, fld') \<Rightarrow> fld'
      | (Inl err, fld') \<Rightarrow> fld')"

text \<open>
  \<open>JSON_parse\<close> reads the text of the lock file as a \<open>MergeLockInfo\<close> (\<open>None\<close>: it
  throws), \<open>dateParse\<close> is as above. An exception anywhere is caught and gives
  \<^verbatim>\<open>null\<close>; an age that is NaN is not greater than one hour.
\<close>

definition checkMergeLock ::
  "(io_op \<Rightarrow> bool) \<Rightarrow> (bytes \<Rightarrow> MergeLockInfo option) \<Rightarrow> (jsstring \<Rightarrow> int option) \<Rightarrow> int \<Rightarrow>
     folder \<Rightarrow> MergeLockInfo option \<times> folder" where
  "checkMergeLock fails JSON_parse dateParse now folderHandle =
     (case getFileHandle fails folderHandle MERGE_LOCK_FILE False of
        (Inl err, fld1) \<Rightarrow> (None, fld1)
      | (Inr lockHandle, fld1) \<Rightarrow>
          (case getFile fails fld1 lockHandle of
             Inl err \<Rightarrow> (None, fld1)
           | Inr text \<Rightarrow>
               (case JSON_parse text of
                  None \<Rightarrow> (None, fld1)
                | Some lockInfo \<Rightarrow>
                    let oneHour = 60 * 60 * 1000;
                        stale = (case dateParse (startedAt lockInfo) of
                                   None \<Rightarrow> False
                                 | Some t \<Rightarrow> now - t > oneHour)
                    in if stale then (None, removeMergeLock fails fld1)
                       else (Some lockInfo, fld1))))"

section \<open>Whole-database comparison (MergeDialog)\<close>

text \<open>
  \<^verbatim>\<open>new Set(xs)\<close> keeps the first occurrence of every element, in insertion order;
  \<^verbatim>\<open>has\<close> is membership.
\<close>

definition newSet :: "'a list \<Rightarrow> 'a list" where
  "newSet xs = fold (\<lambda>x acc. if x \<in> set acc then acc else acc @ [x]) xs []"

text \<open>The tables compared, each with its name, label and description.\<close>

definition ALL_DATA_TABLES :: "(jsstring \<times> jsstring \<times> jsstring) list" where
  "ALL_DATA_TABLES =
     [(js ''person'', js ''People'', js ''Staff members''),
      (js ''person_role'', js ''Person Roles'', js ''Role assignments per person''),
      (js ''person_group'', js ''Person Groups'', js ''Group memberships''),
      (js ''assignment'', js ''Daily Assignments'', js ''Who's assigned where each day''),
      (js ''timeoff'', js ''Time Off'', js ''Vacation and leave entries''),
      (js ''availability_override'', js ''Availability Overrides'', js ''Per-day availability changes''),
      (js ''monthly_default'', js ''Monthly Defaults'', js ''Default monthly assignments''),
      (js ''monthly_default_day'', js ''Monthly Weekday Overrides'', js ''Weekday-specific defaults''),
      (js ''monthly_default_week'', js ''Monthly Week Overrides'', js ''Week-specific defaults''),
      (js ''role'', js ''Roles'', js ''Role definitions''),
      (js ''segment'', js ''Segments'', js ''Time segments (AM, PM, etc.)''),
      (js ''segment_role'', js ''Segment Roles'', js ''Roles available per segment''),
      (js ''segment_adjustment'', js ''Segment Adjustments'', js ''Segment time adjustments''),
      (js ''segment_adjustment_condition'', js ''Adjustment Conditions'', js ''When adjustments apply''),
      (js ''groups'', js ''Groups'', js ''Group definitions''),
      (js ''export_group'', js ''Export Groups'', js ''Export configurations''),
      (js ''department_event'', js ''Department Events'', js ''Department-wide events''),
      (js ''training'', js ''Training'', js ''Training records''),
      (js ''skill'', js ''Skills'', js ''Skill definitions''),
      (js ''person_skill'', js ''Person Skills'', js ''Skills per person'')]"

datatype differenceType = Diff_none | Diff_count | Diff_content

record TableDiff =
  table :: jsstring
  label :: jsstring
  myCount :: nat
  theirCount :: nat
  hasDifferences :: bool
  differenceType :: differenceType
  differenceDetails :: jsstring

text \<open>
  A database gives, for a table name, the rows that
  \<^verbatim>\<open>SELECT * FROM t ORDER BY 1\<close> returns, or \<open>None\<close> when the table does not exist and
  \<^verbatim>\<open>exec\<close> throws. \<^verbatim>\<open>SELECT COUNT(*)\<close> is the number of these rows, and the result of
  \<^verbatim>\<open>exec\<close> has a first element only when there is a row. \<open>JSON_stringify\<close> is the built-in
  that \<^verbatim>\<open>hashRow\<close> calls.
\<close>

type_synonym 'row database = "jsstring \<Rightarrow> 'row list option"

definition hashRow :: "('row \<Rightarrow> jsstring) \<Rightarrow> 'row \<Rightarrow> jsstring" where
  "hashRow JSON_stringify row = JSON_stringify row"

text \<open>The body of the loop over the tables; \<open>None\<close> when the outer \<^verbatim>\<open>catch\<close> skips the table.\<close>

definition compareTable ::
  "('row \<Rightarrow> jsstring) \<Rightarrow> 'row database \<Rightarrow> 'row database \<Rightarrow> jsstring \<times> jsstring \<times> jsstring \<Rightarrow>
     TableDiff option" where
  "compareTable JSON_stringify myDb theirDb t =
     (case t of (tname, tlabel, tdescription) \<Rightarrow>
      case myDb tname of
        None \<Rightarrow> None
      | Some myRows \<Rightarrow>
      case theirDb tname of
        None \<Rightarrow> None
      | Some theirRows \<Rightarrow>
          let myCnt = length myRows;
              theirCnt = length theirRows;
              nodiff = \<lparr>table = tname, label = tlabel, myCount = myCnt, theirCount = theirCnt,
                        hasDifferences = False, differenceType = Diff_none,
                        differenceDetails = []\<rparr>
          in
          if myCnt \<noteq> theirCnt then
            let diff = int theirCnt - int myCnt in
            Some (nodiff\<lparr>hasDifferences := True, differenceType := Diff_count,
                    differenceDetails :=
                      (if diff > 0
                       then js ''Their version has '' @ showInt diff @ js '' more row(s)''
                       else js ''Your version has '' @ showInt \<bar>diff\<bar> @ js '' more row(s)'')\<rparr>)
          else if myCnt > 0 then
            if myRows \<noteq> [] \<and> theirRows \<noteq> [] then
              let myHashes = newSet (map (hashRow JSON_stringify) myRows);
                  theirHashes = newSet (map (hashRow JSON_stringify) theirRows);
                  onlyInMine = length (filter (\<lambda>h. h \<notin> set theirHashes) myHashes);
                  onlyInTheirs = length (filter (\<lambda>h. h \<notin> set myHashes) theirHashes)
              in
              if onlyInMine > 0 \<or> onlyInTheirs > 0 then
                Some (nodiff\<lparr>hasDifferences := True, differenceType := Diff_content,
                        differenceDetails :=
                          showNat onlyInMine @ js '' row(s) only in yours, '' @
                          showNat onlyInTheirs @ js '' row(s) only in theirs''\<rparr>)
              else Some nodiff
            else Some nodiff
          else Some nodiff)"

definition analyzeDbDifferences ::
  "('row \<Rightarrow> jsstring) \<Rightarrow> 'row database \<Rightarrow> 'row database \<Rightarrow> TableDiff list" where
  "analyzeDbDifferences JSON_stringify myDb theirDb =
     List.map_filter (compareTable JSON_stringify myDb theirDb) ALL_DATA_TABLES"

section \<open>Differing fields of a conflict (MergeConflictDialog)\<close>

text \<open>
  The values of JavaScript, by the cases that \<open>formatValue\<close> tells apart: \<^verbatim>\<open>null\<close>,
  \<^verbatim>\<open>undefined\<close>, booleans, numbers, BigInts, strings, symbols (with their description,
  if any), functions, and the other objects. Numbers are kept abstract, with
  \<open>Number_toString\<close> for the conversion that \<^verbatim>\<open>String\<close> applies to them (it prints
  \<^verbatim>\<open>2 ** 60\<close> as \<^verbatim>\<open>1152921504606847000\<close>, and has its own ways with fractions, infinities
  and NaN). \<open>Function_toString\<close> is what \<^verbatim>\<open>String\<close> makes of a function, through its
  \<^verbatim>\<open>toString\<close> method, and \<open>JSON_stringify\<close> what \<^verbatim>\<open>JSON.stringify\<close> makes of an object: a
  string, or \<^verbatim>\<open>undefined\<close> (\<open>None\<close>, when its \<^verbatim>\<open>toJSON\<close> returns that); both may throw
  (\<open>Inl\<close>), as \<^verbatim>\<open>JSON.stringify\<close> does on a cyclic object.

  A row is an object. \<open>Object_keys\<close> lists its own enumerable string keys in the order of
  \<^verbatim>\<open>Object.keys\<close>, and \<open>Get row key\<close> is the outcome of the property read \<^verbatim>\<open>row[key]\<close>:
  the value of the own property, or of the one inherited from the prototype
  (\<^verbatim>\<open>constructor\<close>, \<^verbatim>\<open>toString\<close> and the others of \<^verbatim>\<open>Object.prototype\<close>), or
  \<^verbatim>\<open>undefined\<close> when there is none; a getter may throw.
\<close>

datatype ('n, 'f, 'o) jsvalue =
    JNull
  | JUndefined
  | JBoolean bool
  | JNumber 'n
  | JBigInt int
  | JString jsstring
  | JSymbol "jsstring option"
  | JFunction 'f
  | JObject 'o

record ('n, 'f, 'o, 'x) rowObject =
  Object_keys :: "jsstring list"
  Get :: "jsstring \<Rightarrow> 'x + ('n, 'f, 'o) jsvalue"

definition formatValue ::
  "('n \<Rightarrow> jsstring) \<Rightarrow> ('f \<Rightarrow> 'x + jsstring) \<Rightarrow> ('o \<Rightarrow> 'x + jsstring option) \<Rightarrow>
     ('n, 'f, 'o) jsvalue \<Rightarrow> 'x + jsstring option" where
  "formatValue Number_toString Function_toString JSON_stringify v =
     (case v of
        JNull \<Rightarrow> Inr (Some (js ''(empty)''))
      | JUndefined \<Rightarrow> Inr (Some (js ''(empty)''))
      | JObject ob \<Rightarrow> JSON_stringify ob
      | JBoolean b \<Rightarrow> Inr (Some (if b then js ''true'' else js ''false''))
      | JNumber n \<Rightarrow> Inr (Some (Number_toString n))
      | JBigInt i \<Rightarrow> Inr (Some (showInt i))
      | JString s \<Rightarrow> Inr (Some s)
      | JSymbol d \<Rightarrow>
          Inr (Some (js ''Symbol('' @ (case d of None \<Rightarrow> [] | Some s \<Rightarrow> s) @ js '')''))
      | JFunction f \<Rightarrow>
          (case Function_toString f of Inl ex \<Rightarrow> Inl ex | Inr s \<Rightarrow> Inr (Some s)))"

text \<open>The expression \<^verbatim>\<open>formatValue(row[key])\<close>: the read, then the formatting.\<close>

definition formatProperty ::
  "(('n, 'f, 'o) jsvalue \<Rightarrow> 'x + jsstring option) \<Rightarrow> ('n, 'f, 'o, 'x) rowObject \<Rightarrow> jsstring \<Rightarrow>
     'x + jsstring option" where
  "formatProperty fmt r key = (case Get r key of Inl ex \<Rightarrow> Inl ex | Inr v \<Rightarrow> fmt v)"

definition isBookkeeping :: "jsstring \<Rightarrow> bool" where
  "isBookkeeping key =
     (key = js ''sync_id'' \<or> key = js ''modified_at'' \<or> key = js ''modified_by'')"

text \<open>
  The loop over the keys: \<open>ds\<close> is the array \<^verbatim>\<open>diffs\<close> built so far; the left operand of
  \<^verbatim>\<open>!==\<close> is evaluated before the right one, and the first exception ends the call.
\<close>

fun diffLoop ::
  "(('n, 'f, 'o) jsvalue \<Rightarrow> 'x + jsstring option) \<Rightarrow> ('n, 'f, 'o, 'x) rowObject \<Rightarrow>
     ('n, 'f, 'o, 'x) rowObject \<Rightarrow> jsstring list \<Rightarrow> jsstring list \<Rightarrow> 'x + jsstring list" where
  "diffLoop fmt rowA rowB [] ds = Inr ds"
| "diffLoop fmt rowA rowB (key # keys) ds =
     (if isBookkeeping key then diffLoop fmt rowA rowB keys ds
      else case formatProperty fmt rowA key of
             Inl ex \<Rightarrow> Inl ex
           | Inr fa \<Rightarrow>
               (case formatProperty fmt rowB key of
                  Inl ex \<Rightarrow> Inl ex
                | Inr fb \<Rightarrow>
                    diffLoop fmt rowA rowB keys (if fa \<noteq> fb then ds @ [key] else ds)))"

definition getDifferences ::
  "('n \<Rightarrow> jsstring) \<Rightarrow> ('f \<Rightarrow> 'x + jsstring) \<Rightarrow> ('o \<Rightarrow> 'x + jsstring option) \<Rightarrow>
     ('n, 'f, 'o, 'x) rowObject option \<Rightarrow> ('n, 'f, 'o, 'x) rowObject option \<Rightarrow> 'x + jsstring list" where
  "getDifferences Number_toString Function_toString JSON_stringify rowA rowB =
     (case rowA of
        None \<Rightarrow> Inr []
      | Some a \<Rightarrow>
      case rowB of
        None \<Rightarrow> Inr []
      | Some b \<Rightarrow>
          let allKeys = newSet (Object_keys a @ Object_keys b)
          in diffLoop (formatValue Number_toString Function_toString JSON_stringify)
               a b allKeys [])"

section \<open>Properties of the naming convention\<close>

lemma stripPrefix_append: "stripPrefix p (p @ s) = Some s"
  by (simp add: stripPrefix_def)

lemma stripSuffix_append: "stripSuffix p (s @ p) = Some s"
  by (simp add: stripSuffix_def)

lemma stripPrefix_Some: "stripPrefix p s = Some r \<Longrightarrow> s = p @ r"
  by (auto simp: stripPrefix_def split: if_splits) (metis append_take_drop_id)

lemma stripSuffix_Some: "stripSuffix p s = Some r \<Longrightarrow> s = r @ p"
  by (auto simp: stripSuffix_def split: if_splits) (metis append_take_drop_id)

lemma WORKING_FILE_PATTERN_create:
  "WORKING_FILE_PATTERN (createWorkingFileName em) =
     (if matchDotPlus em then Some em else None)"
  by (simp add: WORKING_FILE_PATTERN_def createWorkingFileName_def
      stripPrefix_append stripSuffix_append)


lemma matchDotPlus_iff:
  "matchDotPlus s \<longleftrightarrow>
     s \<noteq> [] \<and> 0x000A \<notin> set s \<and> 0x000D \<notin> set s \<and> 0x2028 \<notin> set s \<and> 0x2029 \<notin> set s"
  by (auto simp: matchDotPlus_def isLineTerminator_def list_all_iff)




text \<open>
  C10: the naming convention of working files round-trips. For every non-empty e-mail
  string without a newline character, that is without any of the line terminators LF, CR,
  U+2028 and U+2029 that the atom \<^verbatim>\<open>.\<close> of the pattern refuses,
  \<open>extractEmailFromFileName (createWorkingFileName email)\<close> is \<open>email\<close>.
\<close>

theorem working_file_name_roundtrip:
  assumes "em \<noteq> []"
    and "0x000A \<notin> set em" and "0x000D \<notin> set em"
    and "0x2028 \<notin> set em" and "0x2029 \<notin> set em"
  shows "extractEmailFromFileName (createWorkingFileName em) = Some em"
  using assms
  by (simp add: extractEmailFromFileName_def WORKING_FILE_PATTERN_create matchDotPlus_iff)

theorem working_file_name_roundtrip_witness:
  "js ''john@company.com'' \<noteq> [] \<and>
   0x000A \<notin> set (js ''john@company.com'') \<and> 0x000D \<notin> set (js ''john@company.com'') \<and>
   0x2028 \<notin> set (js ''john@company.com'') \<and> 0x2029 \<notin> set (js ''john@company.com'') \<and>
   extractEmailFromFileName (createWorkingFileName (js ''john@company.com''))
     = Some (js ''john@company.com'')"
  using working_file_name_roundtrip [of "js ''john@company.com''"]
  by (simp add: js_def)

text \<open>
  The hypotheses of C10 are needed: an empty e-mail, or one with a line terminator in it,
  gives a name that the pattern does not match.
\<close>

lemma working_file_name_no_roundtrip:
  "\<not> matchDotPlus em \<Longrightarrow> extractEmailFromFileName (createWorkingFileName em) = None"
  by (simp add: extractEmailFromFileName_def WORKING_FILE_PATTERN_create)

section \<open>Properties of scanFolder\<close>

lemma workingFiles_checkBackup [simp]: "workingFiles (checkBackup nm r) = workingFiles r"
  by (simp add: checkBackup_def)













section \<open>Properties of the storage operations\<close>

lemma unat_of_char: "unat (of_char c :: 16 word) = of_char c"
proof -
  have "(of_char c :: 16 word) = of_nat (of_char c)"
    by (simp add: of_nat_of_char)
  moreover have "(of_char c :: nat) < 2 ^ 16"
    by (rule less_trans [OF nat_of_char_less_256]) simp
  ultimately show ?thesis
    by (simp add: unat_of_nat take_bit_nat_eq_self)
qed

lemma of_char_word_inj: "(of_char a :: 16 word) = of_char b \<longleftrightarrow> a = b"
proof
  assume "(of_char a :: 16 word) = of_char b"
  then have "unat (of_char a :: 16 word) = unat (of_char b :: 16 word)" by simp
  then show "a = b" by (simp add: unat_of_char)
qed simp

lemma js_eq_iff [simp]: "js a = js b \<longleftrightarrow> a = b"
  by (simp add: js_def inj_on_def of_char_word_inj)

lemma js_Nil [simp]: "js [] = []" by (simp add: js_def)
lemma js_append: "js (a @ b) = js a @ js b" by (simp add: js_def)

lemma map_of_setContents_at:
  "map_of (setContents h b fld) k =
     (if k = h \<and> h \<in> fst ` set fld then Some (FileEntry b) else map_of fld k)"
  by (induction fld) force+


lemma map_of_remove:
  "map_of (filter (\<lambda>(n, e). n \<noteq> nm) fld) = (map_of fld)(nm := None)"
  by (induction fld) (auto simp: fun_eq_iff)

lemma map_of_create:
  "map_of fld nm = None \<Longrightarrow> map_of (fld @ [(nm, x)]) = (map_of fld)(nm \<mapsto> x)"
  by (auto simp: fun_eq_iff map_add_def split: option.splits)

lemma fst_set_map_of: "map_of fld nm = Some x \<Longrightarrow> nm \<in> fst ` set fld"
  by (metis map_of_eq_None_iff option.distinct(1))

lemma getFile_Inr:
  "getFile fails fld h = Inr b \<longleftrightarrow> \<not> fails (GetFile h) \<and> map_of fld h = Some (FileEntry b)"
  by (auto simp: getFile_def split: option.splits entry.splits)

lemma getFileHandle_create:
  "getFileHandle fails fld nm True = (Inr h, fld') \<Longrightarrow>
     h = nm \<and> (\<exists>b. map_of fld' nm = Some (FileEntry b)) \<and>
     (\<forall>k. k \<noteq> nm \<longrightarrow> map_of fld' k = map_of fld k)"
  by (auto simp: getFileHandle_def map_add_def split: if_splits option.splits entry.splits)







lemma getFileHandle_ok:
  assumes "\<not> fails (GetFileHandle nm)" and "map_of fld nm \<noteq> Some DirectoryEntry"
  shows "\<exists>fld1. getFileHandle fails fld nm True = (Inr nm, fld1)"
proof (cases "map_of fld nm")
  case None
  with assms show ?thesis by (simp add: getFileHandle_def)
next
  case (Some x)
  with assms show ?thesis by (cases x) (simp_all add: getFileHandle_def)
qed

section \<open>Properties of the calendar\<close>








































section \<open>Properties of the working-file operations\<close>



lemma createWorkingFile_result:
  assumes nf: "\<forall>op. \<not> fails op"
    and base: "map_of fld baseHandle = Some (FileEntry baseData)"
    and nd: "map_of fld (createWorkingFileName em) \<noteq> Some DirectoryEntry"
  shows "\<exists>fld'. createWorkingFileFromBase fails fld baseHandle em =
            (Inr (createWorkingFileName em), fld') \<and>
          map_of fld' = (map_of fld)(createWorkingFileName em \<mapsto> FileEntry baseData)"
proof -
  let ?wn = "createWorkingFileName em"
  have gf: "getFile fails fld baseHandle = Inr baseData"
    using nf base by (simp add: getFile_Inr)
  obtain fld1 where g: "getFileHandle fails fld ?wn True = (Inr ?wn, fld1)"
    using getFileHandle_ok nf nd by blast
  then obtain b where b: "map_of fld1 ?wn = Some (FileEntry b)"
    and keep: "\<forall>k. k \<noteq> ?wn \<longrightarrow> map_of fld1 k = map_of fld k"
    using getFileHandle_create [OF g] by auto
  have w: "writeThroughStream fails fld1 ?wn baseData = (Inr (), setContents ?wn baseData fld1)"
    using nf b by (simp add: writeThroughStream_def)
  have "map_of (setContents ?wn baseData fld1) = (map_of fld)(?wn \<mapsto> FileEntry baseData)"
    using b keep by (auto simp: fun_eq_iff map_of_setContents_at dest: fst_set_map_of)
  then show ?thesis
    using gf g w by (simp add: createWorkingFileFromBase_def)
qed

lemma checkMergeLock_result:
  assumes nf: "\<forall>op. \<not> fails op"
    and lock: "map_of fld MERGE_LOCK_FILE = Some (FileEntry lockText)"
    and parse: "JSON_parse lockText = Some lockInfo"
    and date: "dateParse (startedAt lockInfo) = Some t"
  shows "checkMergeLock fails JSON_parse dateParse now fld =
           (if now - t > 60 * 60 * 1000
            then (None, filter (\<lambda>(n, e). n \<noteq> MERGE_LOCK_FILE) fld)
            else (Some lockInfo, fld))"
proof -
  have g: "getFileHandle fails fld MERGE_LOCK_FILE False = (Inr MERGE_LOCK_FILE, fld)"
    using nf lock by (simp add: getFileHandle_def)
  have gf: "getFile fails fld MERGE_LOCK_FILE = Inr lockText"
    using nf lock by (simp add: getFile_Inr)
  have rm: "removeMergeLock fails fld = filter (\<lambda>(n, e). n \<noteq> MERGE_LOCK_FILE) fld"
    using nf lock by (simp add: removeMergeLock_def removeEntry_def)
  show ?thesis
    using g gf parse date rm by (simp add: checkMergeLock_def)
qed

text \<open>The name of the backup: the name of the working file, \<^verbatim>\<open>.bak.\<close> and the UTC date.\<close>

lemma createBackupFileName_eq:
  "createBackupFileName now nm = nm @ js ''.bak.'' @ split0 0x54 (toISOString now)"
  by (simp add: createBackupFileName_def BACKUP_EXTENSION_def js_def)


lemma Day_example: "Day 1766743200000 = 20448"
  by (simp add: Day_def msPerDay_def)

lemma YearFromTime_example: "YearFromTime 1766743200000 = 2025"
  by (simp add: YearFromTime_def Day_example yearSearch.simps DayFromYear_def)

lemma DayWithinYear_example: "DayWithinYear 1766743200000 = 359"
  by (simp add: DayWithinYear_def Day_example YearFromTime_example DayFromYear_def)

lemma MonthFromTime_example: "MonthFromTime 1766743200000 = 11"
  by (simp add: MonthFromTime_def DayWithinYear_example YearFromTime_example InLeapYear_def)

lemma DateFromTime_example: "DateFromTime 1766743200000 = 26"
  by (simp add: DateFromTime_def DayWithinYear_example MonthFromTime_example
      YearFromTime_example InLeapYear_def DaysBeforeMonth_def)

lemma showNat_example:
  "showNat 2025 = js ''2025''" "showNat 12 = js ''12''" "showNat 26 = js ''26''"
  "showNat 10 = js ''10''" "showNat 0 = js ''0''"
  by (simp_all add: showNat.simps js_def)

lemma padStart_example:
  "padStart 4 (js ''2025'') = js ''2025''" "padStart 2 (js ''12'') = js ''12''"
  "padStart 2 (js ''26'') = js ''26''" "padStart 2 (js ''10'') = js ''10''"
  "padStart 2 (js ''0'') = js ''00''" "padStart 3 (js ''0'') = js ''000''"
  by (simp_all add: padStart_def js_def eval_nat_numeral)

lemma toISOString_example:
  "toISOString 1766743200000 = js ''2025-12-26T10:00:00.000Z''"
  by (simp add: toISOString_def YearFromTime_example MonthFromTime_example
      DateFromTime_example HourFromTime_def MinFromTime_def SecFromTime_def msFromTime_def
      showNat_example padStart_example js_append [symmetric])

lemma createBackupFileName_example:
  "createBackupFileName 1766743200000 (js ''schedule.a@b.db'') =
     js ''schedule.a@b.db.bak.2025-12-26''"
  by (simp add: createBackupFileName_eq toISOString_example split0_def js_def)

text \<open>
  The date is the UTC date, which is not always the date that the clock of the machine
  shows: in New York on 3 November 2025 at 23:30 local time (04:30 UTC on the 4th) the
  backup is named for 2025-11-04, while the local day is 3 November.
\<close>

lemma createBackupFileName_utc_example:
  "createBackupFileName 1762230600000 (js ''schedule.a@b.db'') =
     js ''schedule.a@b.db.bak.2025-11-04'' \<and>
   Day (LocalTime zoneNewYork2025 1762230600000) = MakeDay 2025 10 3"
proof -
  have day: "Day 1762230600000 = 20396"
    by (simp add: Day_def msPerDay_def)
  have year: "YearFromTime 1762230600000 = 2025"
    by (simp add: YearFromTime_def day yearSearch.simps DayFromYear_def)
  have within: "DayWithinYear 1762230600000 = 307"
    by (simp add: DayWithinYear_def day year DayFromYear_def)
  have month: "MonthFromTime 1762230600000 = 10"
    by (simp add: MonthFromTime_def within year InLeapYear_def)
  have date: "DateFromTime 1762230600000 = 4"
    by (simp add: DateFromTime_def within month year InLeapYear_def DaysBeforeMonth_def)
  have digits: "showNat 11 = js ''11''" "showNat 4 = js ''4''" "showNat 30 = js ''30''"
    by (simp_all add: showNat.simps js_def)
  have pad: "padStart 2 (js ''11'') = js ''11''" "padStart 2 (js ''4'') = js ''04''"
    "padStart 2 (js ''30'') = js ''30''"
    by (simp_all add: padStart_def js_def eval_nat_numeral)
  have iso: "toISOString 1762230600000 = js ''2025-11-04T04:30:00.000Z''"
    by (simp add: toISOString_def year month date HourFromTime_def MinFromTime_def
        SecFromTime_def msFromTime_def showNat_example digits padStart_example pad
        js_append [symmetric])
  have name: "createBackupFileName 1762230600000 (js ''schedule.a@b.db'') =
      js ''schedule.a@b.db.bak.2025-11-04''"
    by (simp add: createBackupFileName_eq iso split0_def js_def)
  have local: "Day (LocalTime zoneNewYork2025 1762230600000) = MakeDay 2025 10 3"
    by (simp add: Day_def LocalTime_def zoneNewYork2025_def msPerDay_def MakeDay_def
        DayFromYear_def InLeapYear_def DaysBeforeMonth_def)
  show ?thesis
    by (intro conjI name local)
qed

lemma archive_example:
  "archiveWorkingFile noFaults 1766743200000
     [(js ''schedule.base'', FileEntry [1]), (js ''schedule.a@b.db'', FileEntry [7, 8])]
     \<lparr>handle = js ''schedule.a@b.db'', email = js ''a@b'', fileName = js ''schedule.a@b.db''\<rparr>
   = (Inr (), [(js ''schedule.base'', FileEntry [1]),
               (js ''schedule.a@b.db.bak.2025-12-26'', FileEntry [7, 8])])"
  by (simp add: archiveWorkingFile_def createBackupFileName_example
      getFile_def getFileHandle_def writeThroughStream_def removeEntry_def noFaults_def)

lemma create_example:
  "createWorkingFileFromBase noFaults
     [(js ''schedule.base'', FileEntry [1, 2]), (js ''schedule.a@b.db'', FileEntry [9])]
     (js ''schedule.base'') (js ''a@b'')
   = (Inr (js ''schedule.a@b.db''),
      [(js ''schedule.base'', FileEntry [1, 2]), (js ''schedule.a@b.db'', FileEntry [1, 2])])"
  by (simp add: createWorkingFileFromBase_def createWorkingFileName_def
      getFile_def getFileHandle_def writeThroughStream_def noFaults_def
      js_append [symmetric] Let_def)

lemma archive_rejected_example:
  "archiveWorkingFile (failsOn (CloseStream (js ''schedule.a@b.db.bak.2025-12-26'')))
     1766743200000
     [(js ''schedule.base'', FileEntry [1]), (js ''schedule.a@b.db'', FileEntry [7, 8])]
     \<lparr>handle = js ''schedule.a@b.db'', email = js ''a@b'', fileName = js ''schedule.a@b.db''\<rparr>
   = (Inl IOError, [(js ''schedule.base'', FileEntry [1]),
                    (js ''schedule.a@b.db'', FileEntry [7, 8]),
                    (js ''schedule.a@b.db.bak.2025-12-26'', FileEntry [])])"
  by (simp add: archiveWorkingFile_def createBackupFileName_example
      getFile_def getFileHandle_def writeThroughStream_def removeEntry_def failsOn_def)

text \<open>
  C3, as amended: when no storage call is rejected and the base is a file,
  \<open>createWorkingFileFromBase\<close> resolves to the working file named for the author, which then
  holds the bytes of the base, and changes no other entry. It does so whether or not a
  working file of that name was there before: an existing one is overwritten, and no
  AlreadyExists error is raised.
\<close>

theorem createWorkingFileFromBase_copies:
  assumes "\<forall>op. \<not> fails op"
    and "map_of fld baseHandle = Some (FileEntry baseData)"
    and "map_of fld (createWorkingFileName em) \<noteq> Some DirectoryEntry"
  shows "\<exists>fld'. createWorkingFileFromBase fails fld baseHandle em =
            (Inr (createWorkingFileName em), fld') \<and>
          map_of fld' = (map_of fld)(createWorkingFileName em \<mapsto> FileEntry baseData)"
  using assms by (rule createWorkingFile_result)

theorem createWorkingFileFromBase_copies_witness:
  "(\<forall>op. \<not> noFaults op) \<and>
   map_of [(js ''schedule.base'', FileEntry [1, 2])] (js ''schedule.base'')
     = Some (FileEntry [1, 2]) \<and>
   map_of [(js ''schedule.base'', FileEntry [1, 2])] (createWorkingFileName (js ''a@b''))
     \<noteq> Some DirectoryEntry \<and>
   (\<exists>fld'. createWorkingFileFromBase noFaults [(js ''schedule.base'', FileEntry [1, 2])]
              (js ''schedule.base'') (js ''a@b'')
            = (Inr (createWorkingFileName (js ''a@b'')), fld') \<and>
          map_of fld' = (map_of [(js ''schedule.base'', FileEntry [1, 2])])
            (createWorkingFileName (js ''a@b'') \<mapsto> FileEntry [1, 2]))"
proof -
  have h1: "\<forall>op. \<not> noFaults op"
    by (simp add: noFaults_def)
  have h2: "map_of [(js ''schedule.base'', FileEntry [1, 2])] (js ''schedule.base'')
      = Some (FileEntry [1, 2])"
    by simp
  have h3: "map_of [(js ''schedule.base'', FileEntry [1, 2])]
      (createWorkingFileName (js ''a@b'')) \<noteq> Some DirectoryEntry"
    by simp
  show ?thesis
    by (intro conjI h1 h2 h3 createWorkingFileFromBase_copies [OF h1 h2 h3])
qed

text \<open>
  The claim as written asks for an AlreadyExists failure when the working file is there.
  On a folder that holds \<^verbatim>\<open>schedule.a@b.db\<close> already, the call for \<^verbatim>\<open>a@b\<close> resolves, and the
  file has the bytes of the base.
\<close>

theorem createWorkingFileFromBase_counterexample:
  "map_of [(js ''schedule.base'', FileEntry [1, 2]), (js ''schedule.a@b.db'', FileEntry [9])]
     (createWorkingFileName (js ''a@b'')) = Some (FileEntry [9]) \<and>
   createWorkingFileFromBase noFaults
     [(js ''schedule.base'', FileEntry [1, 2]), (js ''schedule.a@b.db'', FileEntry [9])]
     (js ''schedule.base'') (js ''a@b'')
   = (Inr (js ''schedule.a@b.db''),
      [(js ''schedule.base'', FileEntry [1, 2]), (js ''schedule.a@b.db'', FileEntry [1, 2])])"
  using create_example
  by (simp add: createWorkingFileName_def js_append [symmetric])

text \<open>The working files that a scan returns have the handle of the file they name.\<close>

lemma scanEntry_handles:
  assumes "\<forall>w \<in> set (workingFiles r). handle w = fileName w"
  shows "\<forall>w \<in> set (workingFiles (scanEntry lc cur ne r)). handle w = fileName w"
  using assms by (cases ne) (auto simp: scanEntry_def split: option.splits)

lemma fold_scanEntry_handles:
  assumes "\<forall>w \<in> set (workingFiles r). handle w = fileName w"
  shows "\<forall>w \<in> set (workingFiles (fold (scanEntry lc cur) fld r)). handle w = fileName w"
  using assms
proof (induction fld arbitrary: r)
  case Nil
  then show ?case by simp
next
  case (Cons ne fld)
  show ?case
    unfolding fold_simps by (rule Cons.IH [OF scanEntry_handles [OF Cons.prems]])
qed

lemma scanFolder_handles:
  "\<forall>w \<in> set (workingFiles (scanFolder lc fld cur)). handle w = fileName w"
  using fold_scanEntry_handles [of "\<lparr>baseFile = None, workingFiles = [], backupFiles = [],
      needsMerge = False, myWorkingFile = None\<rparr>" lc cur fld]
  by (simp add: scanFolder_def Let_def)



text \<open>
  C5: with no storage call rejected, a lock file whose \<open>startedAt\<close> lies more than one hour
  before \<open>now\<close> makes \<open>checkMergeLock\<close> return no lock and leave the folder without the
  lock file (and otherwise as it was); a lock at most one hour old is returned, and the
  folder is not changed.
\<close>

theorem checkMergeLock_stale_or_fresh:
  assumes "\<forall>op. \<not> fails op"
    and "map_of fld MERGE_LOCK_FILE = Some (FileEntry lockText)"
    and "JSON_parse lockText = Some lockInfo"
    and "dateParse (startedAt lockInfo) = Some t"
  shows "(now - t > 60 * 60 * 1000 \<longrightarrow>
            (\<exists>fld'. checkMergeLock fails JSON_parse dateParse now fld = (None, fld') \<and>
               map_of fld' = (map_of fld)(MERGE_LOCK_FILE := None))) \<and>
         (now - t \<le> 60 * 60 * 1000 \<longrightarrow>
            checkMergeLock fails JSON_parse dateParse now fld = (Some lockInfo, fld))"
  using assms
    checkMergeLock_result [where fails = fails and fld = fld and lockText = lockText
      and JSON_parse = JSON_parse and lockInfo = lockInfo and dateParse = dateParse
      and t = t and now = now]
  by (simp add: map_of_remove)

theorem checkMergeLock_stale_or_fresh_witness:
  "(\<forall>op. \<not> noFaults op) \<and>
   map_of [(js ''schedule.base'', FileEntry [1]), (MERGE_LOCK_FILE, FileEntry [123, 125])]
     MERGE_LOCK_FILE = Some (FileEntry [123, 125]) \<and>
   (\<exists>fld'. checkMergeLock noFaults
        (\<lambda>text. Some \<lparr>MergeLockInfo.email = js ''a@b'',
                       startedAt = js ''2025-12-26T10:00:00.000Z'',
                       MergeLockInfo.workingFiles = []\<rparr>)
        (\<lambda>s. Some 1766743200000) (1766743200000 + 3600001)
        [(js ''schedule.base'', FileEntry [1]), (MERGE_LOCK_FILE, FileEntry [123, 125])]
      = (None, fld') \<and>
      map_of fld' =
        (map_of [(js ''schedule.base'', FileEntry [1]), (MERGE_LOCK_FILE, FileEntry [123, 125])])
          (MERGE_LOCK_FILE := None)) \<and>
   checkMergeLock noFaults
        (\<lambda>text. Some \<lparr>MergeLockInfo.email = js ''a@b'',
                       startedAt = js ''2025-12-26T10:00:00.000Z'',
                       MergeLockInfo.workingFiles = []\<rparr>)
        (\<lambda>s. Some 1766743200000) (1766743200000 + 3600000)
        [(js ''schedule.base'', FileEntry [1]), (MERGE_LOCK_FILE, FileEntry [123, 125])]
      = (Some \<lparr>MergeLockInfo.email = js ''a@b'',
                startedAt = js ''2025-12-26T10:00:00.000Z'',
                MergeLockInfo.workingFiles = []\<rparr>,
         [(js ''schedule.base'', FileEntry [1]), (MERGE_LOCK_FILE, FileEntry [123, 125])])"
proof -
  let ?lock = "\<lparr>MergeLockInfo.email = js ''a@b'',
                 startedAt = js ''2025-12-26T10:00:00.000Z'',
                 MergeLockInfo.workingFiles = []\<rparr>"
  let ?fld = "[(js ''schedule.base'', FileEntry [1]), (MERGE_LOCK_FILE, FileEntry [123, 125])]"
  have nf: "\<forall>op. \<not> noFaults op"
    by (simp add: noFaults_def)
  have lock: "map_of ?fld MERGE_LOCK_FILE = Some (FileEntry [123, 125])"
    by (simp add: MERGE_LOCK_FILE_def)
  have parse: "(\<lambda>text :: bytes. Some ?lock) [123, 125] = Some ?lock"
    by simp
  have date: "(\<lambda>s :: jsstring. Some (1766743200000 :: int)) (startedAt ?lock)
      = Some 1766743200000"
    by simp
  note inst = checkMergeLock_stale_or_fresh [where fails = noFaults and fld = ?fld
      and lockText = "[123, 125]" and JSON_parse = "\<lambda>text. Some ?lock" and lockInfo = ?lock
      and dateParse = "\<lambda>s. Some 1766743200000" and t = 1766743200000,
      OF nf lock parse date]
  have stale: "(1766743200000 + 3600001 :: int) - 1766743200000 > 60 * 60 * 1000"
    by simp
  have fresh: "(1766743200000 + 3600000 :: int) - 1766743200000 \<le> 60 * 60 * 1000"
    by simp
  from inst [of "1766743200000 + 3600001"] stale
  have a: "\<exists>fld'. checkMergeLock noFaults (\<lambda>text. Some ?lock) (\<lambda>s. Some 1766743200000)
             (1766743200000 + 3600001) ?fld = (None, fld') \<and>
           map_of fld' = (map_of ?fld)(MERGE_LOCK_FILE := None)"
    by blast
  from inst [of "1766743200000 + 3600000"] fresh
  have b: "checkMergeLock noFaults (\<lambda>text. Some ?lock) (\<lambda>s. Some 1766743200000)
             (1766743200000 + 3600000) ?fld = (Some ?lock, ?fld)"
    by blast
  show ?thesis
    by (intro conjI nf lock a b)
qed

section \<open>Properties of the backup sweep\<close>

lemma str_includes_here: "str_includes (sub @ ys) sub"
proof (cases "sub @ ys")
  case Nil
  then show ?thesis by simp
next
  case (Cons c cs)
  have "take (length sub) (sub @ ys) = sub"
    by simp
  then have "take (length sub) (c # cs) = sub"
    by (simp only: Cons)
  then show ?thesis
    by (simp only: Cons str_includes.simps) simp
qed

lemma str_includes_append: "str_includes (xs @ sub @ ys) sub"
proof (induction xs)
  case Nil
  show ?case by (simp add: str_includes_here)
next
  case (Cons x xs)
  then show ?case by simp
qed

lemma BACKUP_FILE_PATTERN_includes:
  assumes "BACKUP_FILE_PATTERN nm = Some dateStr"
  shows "str_includes nm BACKUP_EXTENSION"
proof -
  from assms obtain rest mid where nm: "nm = js ''schedule.'' @ rest"
    and mid: "take (length rest - 10) rest = mid @ js ''.db.bak.''"
    by (auto simp: BACKUP_FILE_PATTERN_def Let_def split: option.splits if_splits
        dest!: stripPrefix_Some stripSuffix_Some)
  have "rest = take (length rest - 10) rest @ drop (length rest - 10) rest"
    by simp
  with mid have "rest = mid @ js ''.db.bak.'' @ drop (length rest - 10) rest"
    by simp
  with nm have "nm = (js ''schedule.'' @ mid @ js ''.db'') @ BACKUP_EXTENSION @
      (js ''.'' @ drop (length rest - 10) rest)"
    by (simp add: BACKUP_EXTENSION_def js_def)
  then show ?thesis
    using str_includes_append by metis
qed

lemma parseBackupDate_includes:
  "parseBackupDate LocalTZA nm = Some d \<Longrightarrow> str_includes nm BACKUP_EXTENSION"
  by (auto simp: parseBackupDate_def split: option.splits dest: BACKUP_FILE_PATTERN_includes)

lemma TimeClip_Some: "TimeClip t = Some s \<Longrightarrow> s = t"
  by (simp add: TimeClip_def split: if_splits)


text \<open>
  The zone enters \<open>parseBackupDate\<close> only in the last step: read in UTC, the name gives
  the midnight that starts its calendar day; in the zone of the machine it gives the
  time value at which local time shows that midnight.
\<close>

lemma parseBackupDate_zone:
  assumes "parseBackupDate zoneUTC nm = Some (Some t)"
  shows "parseBackupDate LocalTZA nm = Some (TimeClip (UTC LocalTZA t))"
proof -
  from assms obtain dateStr where pat: "BACKUP_FILE_PATTERN nm = Some dateStr"
    by (auto simp: parseBackupDate_def split: option.splits)
  let ?year = "Number (take 4 dateStr)"
  let ?yr = "if 0 \<le> ?year \<and> ?year \<le> 99 then 1900 + ?year else ?year"
  let ?t = "MakeDate (MakeDay ?yr (Number (take 2 (drop 5 dateStr)) - 1)
      (Number (take 2 (drop 8 dateStr)))) 0"
  have "TimeClip ?t = Some t"
    using assms pat
    by (simp add: parseBackupDate_def newDate_def UTC_def zoneUTC_def Let_def)
  then have t: "t = ?t"
    by (rule TimeClip_Some)
  show ?thesis
    unfolding t using pat by (simp add: parseBackupDate_def newDate_def Let_def)
qed

lemma parseBackupDate_midnight:
  assumes "parseBackupDate zoneUTC nm = Some (Some t)"
  shows "\<exists>dy. t = dy * msPerDay"
proof -
  from assms obtain dy where "TimeClip (MakeDate dy 0) = Some t"
    by (auto simp: parseBackupDate_def newDate_def UTC_def zoneUTC_def Let_def
        split: option.splits)
  then have "t = MakeDate dy 0"
    by (rule TimeClip_Some)
  then show ?thesis
    by (auto simp: MakeDate_def)
qed




lemma cleanupEntry_step:
  "cleanupEntry fails LocalTZA c (nm, e) (f, k) =
     (if isOldBackup LocalTZA c (nm, e) \<and> \<not> fails (RemoveEntry nm) \<and> map_of f nm \<noteq> None
      then (filter (\<lambda>(n, e). n \<noteq> nm) f, k + 1) else (f, k))"
  by (auto simp: cleanupEntry_def isOldBackup_def removeEntry_def split: option.splits)

lemma fold_cleanupEntry:
  assumes "distinct (map fst es)" and "\<forall>ne \<in> set es. map_of f (fst ne) \<noteq> None"
  shows "fold (cleanupEntry fails LocalTZA c) es (f, k) =
     (filter (\<lambda>ne. fst ne \<notin> fst ` {x \<in> set es. isOldBackup LocalTZA c x \<and> \<not> fails (RemoveEntry (fst x))}) f,
      k + length (filter (\<lambda>x. isOldBackup LocalTZA c x \<and> \<not> fails (RemoveEntry (fst x))) es))"
  using assms
proof (induction es arbitrary: f k)
  case Nil
  then show ?case by simp
next
  case (Cons ne es)
  obtain nm e where ne: "ne = (nm, e)" by (cases ne)
  let ?del = "\<lambda>x. isOldBackup LocalTZA c x \<and> \<not> fails (RemoveEntry (fst x))"
  have there: "map_of f nm \<noteq> None"
    using Cons.prems(2) ne by simp
  have dist: "distinct (map fst es)" and fresh: "nm \<notin> fst ` set es"
    using Cons.prems(1) ne by simp_all
  show ?case
  proof (cases "?del (nm, e)")
    case True
    let ?f' = "filter (\<lambda>(n, e). n \<noteq> nm) f"
    have step: "cleanupEntry fails LocalTZA c (nm, e) (f, k) = (?f', k + 1)"
      using True there by (simp add: cleanupEntry_step)
    have pres: "\<forall>ne \<in> set es. map_of ?f' (fst ne) \<noteq> None"
      using Cons.prems(2) fresh by (auto simp: map_of_remove)
    have "{x \<in> set ((nm, e) # es). ?del x} = insert (nm, e) {x \<in> set es. ?del x}"
      using True by auto
    then have R: "fst ` {x \<in> set ((nm, e) # es). ?del x} =
        insert nm (fst ` {x \<in> set es. ?del x})"
      by (simp only: image_insert fst_conv)
    have "filter (\<lambda>ne. fst ne \<notin> fst ` {x \<in> set es. ?del x}) ?f' =
          filter (\<lambda>ne. fst ne \<noteq> nm \<and> fst ne \<notin> fst ` {x \<in> set es. ?del x}) f"
      by (simp add: case_prod_beta)
    also have "\<dots> = filter (\<lambda>ne. fst ne \<notin> fst ` {x \<in> set ((nm, e) # es). ?del x}) f"
      unfolding R by (rule filter_cong) auto
    finally have "filter (\<lambda>ne. fst ne \<notin> fst ` {x \<in> set es. ?del x}) ?f' =
          filter (\<lambda>ne. fst ne \<notin> fst ` {x \<in> set ((nm, e) # es). ?del x}) f" .
    then show ?thesis
      using True Cons.IH [OF dist pres, of "k + 1"] by (simp add: ne step)
  next
    case False
    have step: "cleanupEntry fails LocalTZA c (nm, e) (f, k) = (f, k)"
      using False by (simp add: cleanupEntry_step)
    have pres: "\<forall>ne \<in> set es. map_of f (fst ne) \<noteq> None"
      using Cons.prems(2) by simp
    have "{x \<in> set ((nm, e) # es). ?del x} = {x \<in> set es. ?del x}"
      using False by auto
    then show ?thesis
      using False Cons.IH [OF dist pres, of k] by (simp add: ne step)
  qed
qed

lemma cleanupOldBackups_result:
  assumes "distinct (map fst fld)"
  shows "cleanupOldBackups fails LocalTZA now fld maxAgeDays =
     (filter (\<lambda>ne. \<not> (isOldBackup LocalTZA (TimeClip (now - maxAgeDays * msPerDay)) ne \<and>
                      \<not> fails (RemoveEntry (fst ne)))) fld,
      length (filter (\<lambda>ne. isOldBackup LocalTZA (TimeClip (now - maxAgeDays * msPerDay)) ne \<and>
                      \<not> fails (RemoveEntry (fst ne))) fld))"
proof -
  let ?c = "TimeClip (now - maxAgeDays * msPerDay)"
  let ?del = "\<lambda>x. isOldBackup LocalTZA ?c x \<and> \<not> fails (RemoveEntry (fst x))"
  have "maxAgeDays * 24 * 60 * 60 * 1000 = maxAgeDays * msPerDay"
    by (simp add: msPerDay_def)
  then have c: "TimeClip (now - maxAgeDays * 24 * 60 * 60 * 1000) = ?c"
    by (simp only:)
  have pres: "\<forall>ne \<in> set fld. map_of fld (fst ne) \<noteq> None"
    by (auto simp: map_of_eq_None_iff)
  have "filter (\<lambda>ne. fst ne \<notin> fst ` {x \<in> set fld. ?del x}) fld = filter (\<lambda>ne. \<not> ?del ne) fld"
  proof (rule filter_cong [OF refl])
    fix ne assume mem: "ne \<in> set fld"
    have "fst ne \<in> fst ` {x \<in> set fld. ?del x} \<longleftrightarrow> ?del ne"
    proof
      assume "fst ne \<in> fst ` {x \<in> set fld. ?del x}"
      then obtain x where x: "x \<in> set fld" "?del x" "fst x = fst ne"
        by auto
      with mem assms have "x = ne"
        by (metis eq_key_imp_eq_value prod.collapse)
      with x show "?del ne" by simp
    next
      assume "?del ne"
      with mem show "fst ne \<in> fst ` {x \<in> set fld. ?del x}" by auto
    qed
    then show "(fst ne \<notin> fst ` {x \<in> set fld. ?del x}) = (\<not> ?del ne)"
      by simp
  qed
  moreover have "cleanupOldBackups fails LocalTZA now fld maxAgeDays =
      fold (cleanupEntry fails LocalTZA ?c) fld (fld, 0)"
    by (simp only: cleanupOldBackups_def Let_def c)
  ultimately show ?thesis
    by (simp only: fold_cleanupEntry [OF assms pres] add_0)
qed


lemma BACKUP_FILE_PATTERN_example:
  "BACKUP_FILE_PATTERN (js ''schedule.a@b.db.bak.2025-12-23'') = Some (js ''2025-12-23'')"
  "BACKUP_FILE_PATTERN (js ''schedule.a@b.db.bak.2025-12-24'') = Some (js ''2025-12-24'')"
  "BACKUP_FILE_PATTERN (js ''schedule.a@b.db.bak.2025-11-01'') = Some (js ''2025-11-01'')"
  "BACKUP_FILE_PATTERN (js ''schedule.a@b.db.bak.2025-03-07'') = Some (js ''2025-03-07'')"
  by (simp_all add: BACKUP_FILE_PATTERN_def stripPrefix_def stripSuffix_def matchDotPlus_iff
      isDigit_def js_def)

lemma date_numbers_example:
  "Number (take 4 (js ''2025-12-23'')) = 2025" "Number (take 2 (drop 5 (js ''2025-12-23''))) = 12"
  "Number (take 2 (drop 8 (js ''2025-12-23''))) = 23"
  "Number (take 4 (js ''2025-12-24'')) = 2025" "Number (take 2 (drop 5 (js ''2025-12-24''))) = 12"
  "Number (take 2 (drop 8 (js ''2025-12-24''))) = 24"
  "Number (take 4 (js ''2025-11-01'')) = 2025" "Number (take 2 (drop 5 (js ''2025-11-01''))) = 11"
  "Number (take 2 (drop 8 (js ''2025-11-01''))) = 1"
  "Number (take 4 (js ''2025-03-07'')) = 2025" "Number (take 2 (drop 5 (js ''2025-03-07''))) = 3"
  "Number (take 2 (drop 8 (js ''2025-03-07''))) = 7"
  by (simp_all add: Number_def js_def)

lemma MakeDay_example:
  "MakeDay 2025 11 23 = 20445" "MakeDay 2025 11 24 = 20446"
  "MakeDay 2025 10 1 = 20393" "MakeDay 2025 2 7 = 20154"
  by (simp_all add: MakeDay_def DayFromYear_def InLeapYear_def DaysBeforeMonth_def)

lemma newDate_example:
  "newDate zoneUTC 2025 11 23 = Some 1766448000000"
  "newDate zoneUTC 2025 11 24 = Some 1766534400000"
  "newDate zoneUTC 2025 10 1 = Some 1761955200000"
  "newDate zoneUTC 2025 2 7 = Some 1741305600000"
  by (simp_all add: newDate_def MakeDay_example MakeDate_def UTC_def zoneUTC_def TimeClip_def
      msPerDay_def)

lemma parse_23:
  "parseBackupDate zoneUTC (js ''schedule.a@b.db.bak.2025-12-23'') = Some (Some 1766448000000)"
  by (simp add: parseBackupDate_def BACKUP_FILE_PATTERN_example date_numbers_example
      newDate_example)

lemma parse_24:
  "parseBackupDate zoneUTC (js ''schedule.a@b.db.bak.2025-12-24'') = Some (Some 1766534400000)"
  by (simp add: parseBackupDate_def BACKUP_FILE_PATTERN_example date_numbers_example
      newDate_example)


lemma parse_0307:
  "parseBackupDate zoneUTC (js ''schedule.a@b.db.bak.2025-03-07'') = Some (Some 1741305600000)"
  by (simp add: parseBackupDate_def BACKUP_FILE_PATTERN_example date_numbers_example
      newDate_example)



lemma old_dated:
  assumes "parseBackupDate zoneUTC nm = Some (Some t)"
  shows "isOldBackup LocalTZA c (nm, FileEntry bs) \<longleftrightarrow> dateLess (TimeClip (UTC LocalTZA t)) c"
  using parseBackupDate_zone [OF assms, of LocalTZA]
    parseBackupDate_includes [of LocalTZA nm "TimeClip (UTC LocalTZA t)"]
  by (simp add: isOldBackup_def)

lemma old_23:
  "isOldBackup zoneUTC (TimeClip c) (js ''schedule.a@b.db.bak.2025-12-23'', FileEntry bs)
    \<longleftrightarrow> \<bar>c\<bar> \<le> 8640000000000000 \<and> 1766448000000 < c"
  by (simp add: old_dated [OF parse_23] dateLess_def TimeClip_def UTC_def zoneUTC_def)

lemma old_24:
  "isOldBackup zoneUTC (TimeClip c) (js ''schedule.a@b.db.bak.2025-12-24'', FileEntry bs)
    \<longleftrightarrow> \<bar>c\<bar> \<le> 8640000000000000 \<and> 1766534400000 < c"
  by (simp add: old_dated [OF parse_24] dateLess_def TimeClip_def UTC_def zoneUTC_def)


lemma old_0307:
  "isOldBackup zoneNewYork2025 (TimeClip c) (js ''schedule.a@b.db.bak.2025-03-07'', FileEntry bs)
    \<longleftrightarrow> \<bar>c\<bar> \<le> 8640000000000000 \<and> 1741323600000 < c"
  by (simp add: old_dated [OF parse_0307] dateLess_def TimeClip_def UTC_def zoneNewYork2025_def)



text \<open>A rejected removal: the entry stays, the sweep goes on and counts the other one.\<close>

lemma cleanup_rejected_example:
  "cleanupOldBackups (failsOn (RemoveEntry (js ''schedule.a@b.db.bak.2025-12-23'')))
     zoneUTC 1766743200000
     [(js ''schedule.a@b.db.bak.2025-12-23'', FileEntry [7]),
      (js ''schedule.a@b.db.bak.2025-12-24'', FileEntry [8])] 2
   = ([(js ''schedule.a@b.db.bak.2025-12-23'', FileEntry [7])], 1)"
proof -
  have d: "distinct (map fst [(js ''schedule.a@b.db.bak.2025-12-23'', FileEntry [7]),
      (js ''schedule.a@b.db.bak.2025-12-24'', FileEntry [8])])"
    by simp
  show ?thesis
    by (simp add: cleanupOldBackups_result [OF d] old_23 old_24 msPerDay_def failsOn_def)
qed



text \<open>
  In New York on 10 March 2025 at 00:30 (04:30 UTC), the day after the clocks went
  forward: the backup of 7 March is dated three days ago, and not at midnight, but its
  local midnight was under the winter offset, half an hour after the cutoff: it is kept.
\<close>

lemma cleanup_spring_example:
  "cleanupOldBackups noFaults zoneNewYork2025 1741581000000
     [(js ''schedule.a@b.db.bak.2025-03-07'', FileEntry [7])] 3
   = ([(js ''schedule.a@b.db.bak.2025-03-07'', FileEntry [7])], 0)"
proof -
  have d: "distinct (map fst [(js ''schedule.a@b.db.bak.2025-03-07'', FileEntry [7 :: 8 word])])"
    by simp
  show ?thesis
    by (simp add: cleanupOldBackups_result [OF d] old_0307 msPerDay_def)
qed


section \<open>Properties of shouldCheckpoint\<close>

lemma shouldCheckpoint_parsed:
  assumes "s \<noteq> []" and "dateParse s = Some t"
  shows "shouldCheckpoint dateParse now (Some s) maxDays \<longleftrightarrow>
           now - t \<ge> maxDays * (24 * 60 * 60 * 1000)"
proof -
  have "(of_int maxDays :: rat) \<le> of_int (now - t) / of_int (24 * 60 * 60 * 1000) \<longleftrightarrow>
        (of_int (maxDays * (24 * 60 * 60 * 1000)) :: rat) \<le> of_int (now - t)"
    by (simp add: pos_le_divide_eq)
  also have "\<dots> \<longleftrightarrow> maxDays * (24 * 60 * 60 * 1000) \<le> now - t"
    by (rule of_int_le_iff)
  finally show ?thesis
    using assms by (simp add: shouldCheckpoint_def)
qed

lemma shouldCheckpoint_missing:
  "shouldCheckpoint dateParse now None maxDays"
  "shouldCheckpoint dateParse now (Some []) maxDays"
  by (simp_all add: shouldCheckpoint_def)

text \<open>
  On a timestamp that parses, the result is true if and only if the time elapsed is at
  least \<open>maxDays\<close> days: the test is \<^verbatim>\<open>>=\<close>. A checkpoint exactly three days old, with
  \<open>maxDays = 3\<close>, gives true, one millisecond younger gives false.
\<close>

lemma shouldCheckpoint_boundary:
  "shouldCheckpoint (\<lambda>s. Some 1766743200000) (1766743200000 + 3 * 86400000)
     (Some (js ''2025-12-26T10:00:00.000Z'')) 3 \<and>
   \<not> shouldCheckpoint (\<lambda>s. Some 1766743200000) (1766743200000 + 3 * 86400000 - 1)
     (Some (js ''2025-12-26T10:00:00.000Z'')) 3"
proof -
  have ne: "js ''2025-12-26T10:00:00.000Z'' \<noteq> []"
    by (simp add: js_def)
  note inst = shouldCheckpoint_parsed [where dateParse = "\<lambda>s. Some 1766743200000"
      and t = 1766743200000 and maxDays = 3, OF ne refl]
  have a: "shouldCheckpoint (\<lambda>s. Some 1766743200000) (1766743200000 + 3 * 86400000)
     (Some (js ''2025-12-26T10:00:00.000Z'')) 3"
    by (subst inst) simp
  have b: "\<not> shouldCheckpoint (\<lambda>s. Some 1766743200000) (1766743200000 + 3 * 86400000 - 1)
     (Some (js ''2025-12-26T10:00:00.000Z'')) 3"
    by (subst inst) simp
  show ?thesis
    by (intro conjI a b)
qed

text \<open>
  A non-empty string that does not parse gives false, whatever \<open>now\<close> and \<open>maxDays\<close> are:
  the constructor returns an Invalid Date instead of throwing, the comparison with NaN
  fails, and the \<^verbatim>\<open>catch\<close> branch that returns \<^verbatim>\<open>true\<close> is not reached.
\<close>

lemma shouldCheckpoint_unparseable:
  "s \<noteq> [] \<Longrightarrow> dateParse s = None \<Longrightarrow> \<not> shouldCheckpoint dateParse now (Some s) maxDays"
  by (simp add: shouldCheckpoint_def)

text \<open>
  C7: the claim has \<open>shouldCheckpoint\<close> return true whenever no prior checkpoint can be
  read from its argument, unparseable strings included, as the \<^verbatim>\<open>catch\<close> branch of the
  source intends. The code does not: for the string \<^verbatim>\<open>not-a-date\<close>, which the date parser
  rejects, three days and more after the last good checkpoint, it returns false.
\<close>

theorem shouldCheckpoint_unparseable_is_false:
  "\<not> shouldCheckpoint
       (\<lambda>s. if s = js ''2025-12-26T10:00:00.000Z'' then Some 1766743200000 else None)
       (1766743200000 + 4 * 86400000) (Some (js ''not-a-date'')) 3"
proof -
  have ne: "js ''not-a-date'' \<noteq> []"
    by (simp add: js_def)
  have np: "(\<lambda>s. if s = js ''2025-12-26T10:00:00.000Z'' then Some (1766743200000 :: int) else None)
      (js ''not-a-date'') = None"
    by simp
  show ?thesis
    by (rule shouldCheckpoint_unparseable
        [where dateParse = "\<lambda>s. if s = js ''2025-12-26T10:00:00.000Z''
           then Some 1766743200000 else None", OF ne np])
qed

section \<open>Properties of getDifferences\<close>

lemma set_fold_newSet:
  "set (fold (\<lambda>x acc. if x \<in> set acc then acc else acc @ [x]) xs acc) = set acc \<union> set xs"
  by (induction xs arbitrary: acc) auto

lemma distinct_fold_newSet:
  "distinct acc \<Longrightarrow> distinct (fold (\<lambda>x acc. if x \<in> set acc then acc else acc @ [x]) xs acc)"
  by (induction xs arbitrary: acc) auto

lemma set_newSet [simp]: "set (newSet xs) = set xs"
  by (simp add: newSet_def set_fold_newSet)

lemma distinct_newSet [simp]: "distinct (newSet xs)"
  by (simp add: newSet_def distinct_fold_newSet)

text \<open>
  The loop, when every read and every formatting it makes returns: the keys pushed are,
  in order, the keys met that are not bookkeeping keys and whose two display forms differ.
\<close>

lemma diffLoop_returns:
  assumes "\<forall>key \<in> set keys. \<not> isBookkeeping key \<longrightarrow>
      (\<exists>fa fb. formatProperty fmt a key = Inr fa \<and> formatProperty fmt b key = Inr fb)"
  shows "diffLoop fmt a b keys ds =
     Inr (ds @ filter (\<lambda>key. \<not> isBookkeeping key \<and>
                            formatProperty fmt a key \<noteq> formatProperty fmt b key) keys)"
  using assms
proof (induction keys arbitrary: ds)
  case Nil
  show ?case by simp
next
  case (Cons key keys)
  have rest: "\<forall>key \<in> set keys. \<not> isBookkeeping key \<longrightarrow>
      (\<exists>fa fb. formatProperty fmt a key = Inr fa \<and> formatProperty fmt b key = Inr fb)"
    using Cons.prems by simp
  show ?case
  proof (cases "isBookkeeping key")
    case True
    then show ?thesis
      by (simp add: Cons.IH [OF rest])
  next
    case False
    with Cons.prems obtain fa fb where
      f: "formatProperty fmt a key = Inr fa" "formatProperty fmt b key = Inr fb"
      by auto
    show ?thesis
      using False by (simp add: f Cons.IH [OF rest])
  qed
qed

text \<open>The loop, when a read or a formatting that it makes throws: the call throws.\<close>

lemma diffLoop_throws:
  assumes "\<exists>key \<in> set keys. \<not> isBookkeeping key \<and>
      (\<exists>ex. formatProperty fmt a key = Inl ex \<or> formatProperty fmt b key = Inl ex)"
  shows "\<exists>ex. diffLoop fmt a b keys ds = Inl ex"
  using assms
proof (induction keys arbitrary: ds)
  case Nil
  then show ?case by simp
next
  case (Cons key keys)
  show ?case
  proof (cases "isBookkeeping key")
    case True
    with Cons.prems have "\<exists>key \<in> set keys. \<not> isBookkeeping key \<and>
        (\<exists>ex. formatProperty fmt a key = Inl ex \<or> formatProperty fmt b key = Inl ex)"
      by auto
    from Cons.IH [OF this] True show ?thesis
      by simp
  next
    case False
    show ?thesis
    proof (cases "formatProperty fmt a key")
      case (Inl ex)
      with False show ?thesis by simp
    next
      case fa: (Inr fa)
      show ?thesis
      proof (cases "formatProperty fmt b key")
        case (Inl ex)
        with False fa show ?thesis by simp
      next
        case fb: (Inr fb)
        with fa Cons.prems have "\<exists>key \<in> set keys. \<not> isBookkeeping key \<and>
            (\<exists>ex. formatProperty fmt a key = Inl ex \<or> formatProperty fmt b key = Inl ex)"
          by auto
        from Cons.IH [OF this] False fa fb show ?thesis
          by simp
      qed
    qed
  qed
qed

lemma getDifferences_returns:
  assumes "\<forall>key \<in> set (Object_keys a) \<union> set (Object_keys b). \<not> isBookkeeping key \<longrightarrow>
      (\<exists>fa fb.
         formatProperty (formatValue Number_toString Function_toString JSON_stringify) a key
           = Inr fa \<and>
         formatProperty (formatValue Number_toString Function_toString JSON_stringify) b key
           = Inr fb)"
  shows "getDifferences Number_toString Function_toString JSON_stringify (Some a) (Some b) =
     Inr (filter
       (\<lambda>key. \<not> isBookkeeping key \<and>
          formatProperty (formatValue Number_toString Function_toString JSON_stringify) a key \<noteq>
          formatProperty (formatValue Number_toString Function_toString JSON_stringify) b key)
       (newSet (Object_keys a @ Object_keys b)))"
proof -
  have "\<forall>key \<in> set (newSet (Object_keys a @ Object_keys b)). \<not> isBookkeeping key \<longrightarrow>
      (\<exists>fa fb.
         formatProperty (formatValue Number_toString Function_toString JSON_stringify) a key
           = Inr fa \<and>
         formatProperty (formatValue Number_toString Function_toString JSON_stringify) b key
           = Inr fb)"
    using assms by simp
  from diffLoop_returns [OF this, of "[]"] show ?thesis
    by (simp add: getDifferences_def)
qed

lemma getDifferences_throws:
  assumes "\<exists>key \<in> set (Object_keys a) \<union> set (Object_keys b). \<not> isBookkeeping key \<and>
      (\<exists>ex.
         formatProperty (formatValue Number_toString Function_toString JSON_stringify) a key
           = Inl ex \<or>
         formatProperty (formatValue Number_toString Function_toString JSON_stringify) b key
           = Inl ex)"
  shows "\<exists>ex. getDifferences Number_toString Function_toString JSON_stringify (Some a) (Some b)
           = Inl ex"
proof -
  have "\<exists>key \<in> set (newSet (Object_keys a @ Object_keys b)). \<not> isBookkeeping key \<and>
      (\<exists>ex.
         formatProperty (formatValue Number_toString Function_toString JSON_stringify) a key
           = Inl ex \<or>
         formatProperty (formatValue Number_toString Function_toString JSON_stringify) b key
           = Inl ex)"
    using assms by simp
  from diffLoop_throws [OF this, of "[]"] show ?thesis
    by (simp add: getDifferences_def)
qed

lemma getDifferences_absent:
  "getDifferences Number_toString Function_toString JSON_stringify None rowB = Inr []"
  "getDifferences Number_toString Function_toString JSON_stringify rowA None = Inr []"
  by (simp_all add: getDifferences_def split: option.splits)

text \<open>
  Rows of the examples: numbers are whole numbers printed by \<open>showInt\<close>, the one function
  is the \<^verbatim>\<open>Object\<close> constructor that every object literal inherits as \<^verbatim>\<open>constructor\<close>.
\<close>

lemma getDifferences_example:
  "getDifferences showInt (\<lambda>f :: unit. Inr (js ''function Object() { [native code] }''))
     (\<lambda>ob :: unit. Inr (Some (js ''{}'')))
     (Some \<lparr>Object_keys = [js ''sync_id'', js ''count''],
            Get = (\<lambda>k. Inr (if k = js ''sync_id'' then JNumber 5
                             else if k = js ''count'' then JNumber 1
                             else if k = js ''constructor'' then JFunction ()
                             else JUndefined))\<rparr>)
     (Some \<lparr>Object_keys = [js ''sync_id'', js ''count''],
            Get = (\<lambda>k. Inr (if k = js ''sync_id'' then JNumber 5
                             else if k = js ''count'' then JString (js ''1'')
                             else if k = js ''constructor'' then JFunction ()
                             else JUndefined))\<rparr>)
   = (Inr [] :: unit + jsstring list)"
  by (simp add: getDifferences_def newSet_def isBookkeeping_def formatProperty_def
      formatValue_def showInt_def showNat.simps js_def)

text \<open>
  A key that is a key of one row only is read from the other row too, where the read
  finds what the row inherits: for \<^verbatim>\<open>{sync_id: 5}\<close> and
  \<^verbatim>\<open>{sync_id: 5, constructor: null}\<close> the field \<^verbatim>\<open>constructor\<close> is listed, the inherited
  function on one side being displayed by its source text and \<^verbatim>\<open>null\<close> on the other as
  \<^verbatim>\<open>(empty)\<close>.
\<close>

lemma getDifferences_inherited_example:
  "getDifferences showInt (\<lambda>f :: unit. Inr (js ''function Object() { [native code] }''))
     (\<lambda>ob :: unit. Inr (Some (js ''{}'')))
     (Some \<lparr>Object_keys = [js ''sync_id''],
            Get = (\<lambda>k. Inr (if k = js ''sync_id'' then JNumber 5
                             else if k = js ''constructor'' then JFunction ()
                             else JUndefined))\<rparr>)
     (Some \<lparr>Object_keys = [js ''sync_id'', js ''constructor''],
            Get = (\<lambda>k. Inr (if k = js ''sync_id'' then JNumber 5
                             else if k = js ''constructor'' then JNull
                             else JUndefined))\<rparr>)
   = (Inr [js ''constructor''] :: unit + jsstring list)"
  by (simp add: getDifferences_def newSet_def isBookkeeping_def formatProperty_def
      formatValue_def showInt_def showNat.simps js_def)

text \<open>
  C8, as amended: for two rows that are both present, \<open>getDifferences\<close> goes through the
  keys of either row, each once, in the order of \<^verbatim>\<open>Object.keys\<close> (first row first),
  skips the bookkeeping keys (\<^verbatim>\<open>sync_id\<close>, \<^verbatim>\<open>modified_at\<close>, \<^verbatim>\<open>modified_by\<close>), reads the
  key in both rows and lists exactly the keys whose two values are displayed differently
  by \<open>formatValue\<close>. It does so when every such read and formatting returns; when one
  throws, the call throws. When a row is absent the list is empty.
\<close>

theorem getDifferences_formatted:
  "((\<forall>key \<in> set (Object_keys a) \<union> set (Object_keys b). \<not> isBookkeeping key \<longrightarrow>
       (\<exists>fa fb.
          formatProperty (formatValue Number_toString Function_toString JSON_stringify) a key
            = Inr fa \<and>
          formatProperty (formatValue Number_toString Function_toString JSON_stringify) b key
            = Inr fb)) \<longrightarrow>
    getDifferences Number_toString Function_toString JSON_stringify (Some a) (Some b) =
      Inr (filter
        (\<lambda>key. \<not> isBookkeeping key \<and>
           formatProperty (formatValue Number_toString Function_toString JSON_stringify) a key \<noteq>
           formatProperty (formatValue Number_toString Function_toString JSON_stringify) b key)
        (newSet (Object_keys a @ Object_keys b)))) \<and>
   ((\<exists>key \<in> set (Object_keys a) \<union> set (Object_keys b). \<not> isBookkeeping key \<and>
       (\<exists>ex.
          formatProperty (formatValue Number_toString Function_toString JSON_stringify) a key
            = Inl ex \<or>
          formatProperty (formatValue Number_toString Function_toString JSON_stringify) b key
            = Inl ex)) \<longrightarrow>
    (\<exists>ex. getDifferences Number_toString Function_toString JSON_stringify (Some a) (Some b)
            = Inl ex)) \<and>
   distinct (newSet (Object_keys a @ Object_keys b)) \<and>
   set (newSet (Object_keys a @ Object_keys b)) = set (Object_keys a) \<union> set (Object_keys b) \<and>
   getDifferences Number_toString Function_toString JSON_stringify None rowB = Inr [] \<and>
   getDifferences Number_toString Function_toString JSON_stringify rowA None = Inr []"
proof (intro conjI impI)
  assume "\<forall>key \<in> set (Object_keys a) \<union> set (Object_keys b). \<not> isBookkeeping key \<longrightarrow>
       (\<exists>fa fb.
          formatProperty (formatValue Number_toString Function_toString JSON_stringify) a key
            = Inr fa \<and>
          formatProperty (formatValue Number_toString Function_toString JSON_stringify) b key
            = Inr fb)"
  then show "getDifferences Number_toString Function_toString JSON_stringify (Some a) (Some b) =
      Inr (filter
        (\<lambda>key. \<not> isBookkeeping key \<and>
           formatProperty (formatValue Number_toString Function_toString JSON_stringify) a key \<noteq>
           formatProperty (formatValue Number_toString Function_toString JSON_stringify) b key)
        (newSet (Object_keys a @ Object_keys b)))"
    by (rule getDifferences_returns)
next
  assume "\<exists>key \<in> set (Object_keys a) \<union> set (Object_keys b). \<not> isBookkeeping key \<and>
       (\<exists>ex.
          formatProperty (formatValue Number_toString Function_toString JSON_stringify) a key
            = Inl ex \<or>
          formatProperty (formatValue Number_toString Function_toString JSON_stringify) b key
            = Inl ex)"
  then show "\<exists>ex. getDifferences Number_toString Function_toString JSON_stringify (Some a) (Some b)
            = Inl ex"
    by (rule getDifferences_throws)
next
  show "distinct (newSet (Object_keys a @ Object_keys b))"
    by simp
  show "set (newSet (Object_keys a @ Object_keys b)) = set (Object_keys a) \<union> set (Object_keys b)"
    by simp
  show "getDifferences Number_toString Function_toString JSON_stringify None rowB = Inr []"
    by (rule getDifferences_absent)
  show "getDifferences Number_toString Function_toString JSON_stringify rowA None = Inr []"
    by (rule getDifferences_absent)
qed

text \<open>
  Two rows that differ in a field and in their bookkeeping fields: only the field is
  listed. \<^verbatim>\<open>end_time\<close>, \<^verbatim>\<open>null\<close> in one row and missing in the other, is displayed as
  \<^verbatim>\<open>(empty)\<close> on both sides.
\<close>

theorem getDifferences_formatted_witness:
  "getDifferences showInt (\<lambda>f :: unit. Inr (js ''function Object() { [native code] }''))
     (\<lambda>ob :: unit. Inr (Some (js ''{}'')))
     (Some \<lparr>Object_keys = [js ''sync_id'', js ''name'', js ''end_time'', js ''modified_at'',
                            js ''modified_by''],
            Get = (\<lambda>k. Inr (if k = js ''sync_id'' then JNumber 5
                             else if k = js ''name'' then JString (js ''AM Shift'')
                             else if k = js ''end_time'' then JNull
                             else if k = js ''modified_at'' then JString (js ''2025-12-01'')
                             else if k = js ''modified_by'' then JString (js ''a@b'')
                             else if k = js ''constructor'' then JFunction ()
                             else JUndefined))\<rparr>)
     (Some \<lparr>Object_keys = [js ''sync_id'', js ''name'', js ''modified_at'', js ''modified_by''],
            Get = (\<lambda>k. Inr (if k = js ''sync_id'' then JNumber 6
                             else if k = js ''name'' then JString (js ''Morning'')
                             else if k = js ''modified_at'' then JString (js ''2025-12-02'')
                             else if k = js ''modified_by'' then JString (js ''c@d'')
                             else if k = js ''constructor'' then JFunction ()
                             else JUndefined))\<rparr>)
   = (Inr [js ''name''] :: unit + jsstring list)"
proof -
  let ?F = "\<lambda>f :: unit. Inr (js ''function Object() { [native code] }'') :: unit + jsstring"
  let ?J = "\<lambda>ob :: unit. Inr (Some (js ''{}'')) :: unit + jsstring option"
  let ?a = "\<lparr>Object_keys = [js ''sync_id'', js ''name'', js ''end_time'', js ''modified_at'',
                            js ''modified_by''],
            Get = (\<lambda>k. Inr (if k = js ''sync_id'' then JNumber 5
                             else if k = js ''name'' then JString (js ''AM Shift'')
                             else if k = js ''end_time'' then JNull
                             else if k = js ''modified_at'' then JString (js ''2025-12-01'')
                             else if k = js ''modified_by'' then JString (js ''a@b'')
                             else if k = js ''constructor'' then JFunction ()
                             else JUndefined)) :: _ \<Rightarrow> unit + (int, unit, unit) jsvalue\<rparr>"
  let ?b = "\<lparr>Object_keys = [js ''sync_id'', js ''name'', js ''modified_at'', js ''modified_by''],
            Get = (\<lambda>k. Inr (if k = js ''sync_id'' then JNumber 6
                             else if k = js ''name'' then JString (js ''Morning'')
                             else if k = js ''modified_at'' then JString (js ''2025-12-02'')
                             else if k = js ''modified_by'' then JString (js ''c@d'')
                             else if k = js ''constructor'' then JFunction ()
                             else JUndefined)) :: _ \<Rightarrow> unit + (int, unit, unit) jsvalue\<rparr>"
  have fa: "formatProperty (formatValue showInt ?F ?J) ?a key =
      Inr (Some (if key = js ''sync_id'' then js ''5''
                 else if key = js ''name'' then js ''AM Shift''
                 else if key = js ''end_time'' then js ''(empty)''
                 else if key = js ''modified_at'' then js ''2025-12-01''
                 else if key = js ''modified_by'' then js ''a@b''
                 else if key = js ''constructor'' then js ''function Object() { [native code] }''
                 else js ''(empty)''))" for key
    by (simp add: formatProperty_def formatValue_def showInt_def showNat.simps js_def)
  have fb: "formatProperty (formatValue showInt ?F ?J) ?b key =
      Inr (Some (if key = js ''sync_id'' then js ''6''
                 else if key = js ''name'' then js ''Morning''
                 else if key = js ''modified_at'' then js ''2025-12-02''
                 else if key = js ''modified_by'' then js ''c@d''
                 else if key = js ''constructor'' then js ''function Object() { [native code] }''
                 else js ''(empty)''))" for key
    by (simp add: formatProperty_def formatValue_def showInt_def showNat.simps js_def)
  have ok: "\<forall>key \<in> set (Object_keys ?a) \<union> set (Object_keys ?b). \<not> isBookkeeping key \<longrightarrow>
       (\<exists>fa fb. formatProperty (formatValue showInt ?F ?J) ?a key = Inr fa \<and>
          formatProperty (formatValue showInt ?F ?J) ?b key = Inr fb)"
    unfolding fa fb by blast
  note inst = getDifferences_formatted [where Number_toString = showInt
      and Function_toString = ?F and JSON_stringify = ?J and a = ?a and b = ?b]
  note res = mp [OF conjunct1 [OF inst] ok]
  show ?thesis
    unfolding res fa fb
    by (simp add: newSet_def isBookkeeping_def)
qed

text \<open>
  The claim as written lists the fields whose values differ. The number 1 and the string
  \<^verbatim>\<open>"1"\<close> differ and are displayed alike: the field is not listed.
\<close>

theorem getDifferences_counterexample:
  "Get \<lparr>Object_keys = [js ''sync_id'', js ''count''],
         Get = (\<lambda>k. Inr (if k = js ''sync_id'' then JNumber 5
                          else if k = js ''count'' then JNumber 1
                          else if k = js ''constructor'' then JFunction ()
                          else JUndefined))\<rparr> (js ''count'')
     = (Inr (JNumber 1) :: unit + (int, unit, unit) jsvalue) \<and>
   Get \<lparr>Object_keys = [js ''sync_id'', js ''count''],
         Get = (\<lambda>k. Inr (if k = js ''sync_id'' then JNumber 5
                          else if k = js ''count'' then JString (js ''1'')
                          else if k = js ''constructor'' then JFunction ()
                          else JUndefined))\<rparr> (js ''count'')
     = (Inr (JString (js ''1'')) :: unit + (int, unit, unit) jsvalue) \<and>
   (JNumber 1 :: (int, unit, unit) jsvalue) \<noteq> JString (js ''1'') \<and>
   \<not> isBookkeeping (js ''count'') \<and>
   getDifferences showInt (\<lambda>f :: unit. Inr (js ''function Object() { [native code] }''))
     (\<lambda>ob :: unit. Inr (Some (js ''{}'')))
     (Some \<lparr>Object_keys = [js ''sync_id'', js ''count''],
            Get = (\<lambda>k. Inr (if k = js ''sync_id'' then JNumber 5
                             else if k = js ''count'' then JNumber 1
                             else if k = js ''constructor'' then JFunction ()
                             else JUndefined))\<rparr>)
     (Some \<lparr>Object_keys = [js ''sync_id'', js ''count''],
            Get = (\<lambda>k. Inr (if k = js ''sync_id'' then JNumber 5
                             else if k = js ''count'' then JString (js ''1'')
                             else if k = js ''constructor'' then JFunction ()
                             else JUndefined))\<rparr>)
   = (Inr [] :: unit + jsstring list)"
  using getDifferences_example
  by (simp add: isBookkeeping_def)

section \<open>Properties of the whole-database comparison\<close>

lemma onlyIn_card:
  "length (filter (\<lambda>h. h \<notin> set (newSet ys)) (newSet xs)) = card (set xs - set ys)"
proof -
  have "distinct (filter (\<lambda>h. h \<notin> set (newSet ys)) (newSet xs))"
    by simp
  then have "length (filter (\<lambda>h. h \<notin> set (newSet ys)) (newSet xs)) =
      card (set (filter (\<lambda>h. h \<notin> set (newSet ys)) (newSet xs)))"
    by (simp only: distinct_card)
  also have "set (filter (\<lambda>h. h \<notin> set (newSet ys)) (newSet xs)) = set xs - set ys"
    by auto
  finally show ?thesis .
qed

lemma onlyIn_card':
  "length (filter (\<lambda>h. h \<notin> set ys) (newSet xs)) = card (set xs - set ys)"
  using onlyIn_card [of ys xs] by simp

lemma card_diff_zero:
  "card (set xs - set ys) = 0 \<and> card (set ys - set xs) = 0 \<longleftrightarrow> set xs = set ys"
  by auto

lemma compareTable_count:
  assumes "myDb tname = Some myRows" and "theirDb tname = Some theirRows"
    and "length myRows \<noteq> length theirRows"
  shows "compareTable JSON_stringify myDb theirDb (tname, tlabel, tdescription) =
     Some \<lparr>table = tname, label = tlabel,
           myCount = length myRows, theirCount = length theirRows,
           hasDifferences = True, differenceType = Diff_count,
           differenceDetails =
             (if length theirRows > length myRows
              then js ''Their version has '' @ showNat (length theirRows - length myRows)
                     @ js '' more row(s)''
              else js ''Your version has '' @ showNat (length myRows - length theirRows)
                     @ js '' more row(s)'')\<rparr>"
  using assms
  by (auto simp: compareTable_def Let_def showInt_def nat_diff_distrib')

lemma compareTable_same:
  assumes "myDb tname = Some myRows" and "theirDb tname = Some theirRows"
    and "length myRows = length theirRows"
    and "set (map (hashRow JSON_stringify) myRows) = set (map (hashRow JSON_stringify) theirRows)"
  shows "compareTable JSON_stringify myDb theirDb (tname, tlabel, tdescription) =
     Some \<lparr>table = tname, label = tlabel,
           myCount = length myRows, theirCount = length theirRows,
           hasDifferences = False, differenceType = Diff_none,
           differenceDetails = []\<rparr>"
  using assms
  by (simp add: compareTable_def Let_def onlyIn_card del: set_map)

lemma compareTable_content:
  assumes "myDb tname = Some myRows" and "theirDb tname = Some theirRows"
    and "length myRows = length theirRows"
    and "set (map (hashRow JSON_stringify) myRows) \<noteq> set (map (hashRow JSON_stringify) theirRows)"
  shows "compareTable JSON_stringify myDb theirDb (tname, tlabel, tdescription) =
     Some \<lparr>table = tname, label = tlabel,
           myCount = length myRows, theirCount = length theirRows,
           hasDifferences = True, differenceType = Diff_content,
           differenceDetails =
             showNat (card (set (map (hashRow JSON_stringify) myRows)
                            - set (map (hashRow JSON_stringify) theirRows)))
             @ js '' row(s) only in yours, '' @
             showNat (card (set (map (hashRow JSON_stringify) theirRows)
                            - set (map (hashRow JSON_stringify) myRows)))
             @ js '' row(s) only in theirs''\<rparr>"
proof -
  let ?A = "map (hashRow JSON_stringify) myRows"
  let ?B = "map (hashRow JSON_stringify) theirRows"
  have ne: "myRows \<noteq> [] \<and> theirRows \<noteq> []"
  proof (cases myRows)
    case Nil
    with assms(3) have "theirRows = []" by simp
    with Nil assms(4) show ?thesis by simp
  next
    case (Cons r rs)
    with assms(3) show ?thesis by auto
  qed
  have "\<not> (card (set ?A - set ?B) = 0 \<and> card (set ?B - set ?A) = 0)"
    using assms(4) card_diff_zero [of ?A ?B] by blast
  then have pos: "card (set ?A - set ?B) > 0 \<or> card (set ?B - set ?A) > 0"
    by arith
  show ?thesis
    using assms(1,2,3) ne pos
    by (simp add: compareTable_def Let_def onlyIn_card' del: set_map length_greater_0_conv)
qed

lemma analyze_member:
  "t \<in> set ALL_DATA_TABLES \<Longrightarrow> compareTable JSON_stringify myDb theirDb t = Some d \<Longrightarrow>
     d \<in> set (analyzeDbDifferences JSON_stringify myDb theirDb)"
  by (force simp: analyzeDbDifferences_def map_filter_def)

lemma person_table: "(js ''person'', js ''People'', js ''Staff members'') \<in> set ALL_DATA_TABLES"
  by (simp add: ALL_DATA_TABLES_def)

lemma showNat_digits:
  "showNat (Suc 0) = js ''1''" "showNat 1 = js ''1''" "showNat 2 = js ''2''"
  "showNat 3 = js ''3''"
  by (simp_all add: showNat.simps js_def)

text \<open>
  C2, as amended: for each table of the list that both databases have, the comparison
  reports one entry. With equal row counts and equal sets of row hashes (so also with
  equal multisets of row hashes) it reports no difference; with equal counts and different
  sets of row hashes it reports a content difference, as
  \<^verbatim>\<open>N row(s) only in yours, M row(s) only in theirs\<close> where \<open>N\<close> and \<open>M\<close> count the distinct
  hashes found on one side only; with unequal counts it reports a count difference that
  names the side with more rows and by how many.
\<close>

theorem analyzeDbDifferences_by_hash_sets:
  assumes "(tname, tlabel, tdescription) \<in> set ALL_DATA_TABLES"
    and "myDb tname = Some myRows" and "theirDb tname = Some theirRows"
  shows "\<exists>d. compareTable JSON_stringify myDb theirDb (tname, tlabel, tdescription) = Some d \<and>
     d \<in> set (analyzeDbDifferences JSON_stringify myDb theirDb) \<and>
     table d = tname \<and> myCount d = length myRows \<and> theirCount d = length theirRows \<and>
     (mset (map (hashRow JSON_stringify) myRows) = mset (map (hashRow JSON_stringify) theirRows)
        \<longrightarrow> \<not> hasDifferences d \<and> differenceType d = Diff_none) \<and>
     (length myRows = length theirRows \<and>
      set (map (hashRow JSON_stringify) myRows) = set (map (hashRow JSON_stringify) theirRows)
        \<longrightarrow> \<not> hasDifferences d \<and> differenceType d = Diff_none \<and> differenceDetails d = []) \<and>
     (length myRows = length theirRows \<and>
      set (map (hashRow JSON_stringify) myRows) \<noteq> set (map (hashRow JSON_stringify) theirRows)
        \<longrightarrow> hasDifferences d \<and> differenceType d = Diff_content \<and>
            differenceDetails d =
              showNat (card (set (map (hashRow JSON_stringify) myRows)
                             - set (map (hashRow JSON_stringify) theirRows)))
              @ js '' row(s) only in yours, '' @
              showNat (card (set (map (hashRow JSON_stringify) theirRows)
                             - set (map (hashRow JSON_stringify) myRows)))
              @ js '' row(s) only in theirs'') \<and>
     (length myRows \<noteq> length theirRows
        \<longrightarrow> hasDifferences d \<and> differenceType d = Diff_count \<and>
            differenceDetails d =
              (if length theirRows > length myRows
               then js ''Their version has '' @ showNat (length theirRows - length myRows)
                      @ js '' more row(s)''
               else js ''Your version has '' @ showNat (length myRows - length theirRows)
                      @ js '' more row(s)''))"
proof -
  let ?A = "map (hashRow JSON_stringify) myRows"
  let ?B = "map (hashRow JSON_stringify) theirRows"
  have ms: "mset ?A = mset ?B \<Longrightarrow> length myRows = length theirRows \<and> set ?A = set ?B"
    by (metis length_map mset_eq_length mset_eq_setD)
  consider (cnt) "length myRows \<noteq> length theirRows"
    | (same) "length myRows = length theirRows" "set ?A = set ?B"
    | (content) "length myRows = length theirRows" "set ?A \<noteq> set ?B"
    by blast
  then show ?thesis
  proof cases
    case cnt
    note r = compareTable_count [where myDb = myDb and theirDb = theirDb and tname = tname
        and JSON_stringify = JSON_stringify and tlabel = tlabel and tdescription = tdescription,
        OF assms(2,3) cnt]
    have nm: "mset ?A \<noteq> mset ?B"
      using ms cnt by blast
    show ?thesis
      using cnt nm analyze_member [OF assms(1) r] by (simp add: r)
  next
    case same
    note r = compareTable_same [where myDb = myDb and theirDb = theirDb and tname = tname
        and JSON_stringify = JSON_stringify and tlabel = tlabel and tdescription = tdescription,
        OF assms(2,3) same]
    show ?thesis
      using same analyze_member [OF assms(1) r] by (simp add: r)
  next
    case content
    note r = compareTable_content [where myDb = myDb and theirDb = theirDb and tname = tname
        and JSON_stringify = JSON_stringify and tlabel = tlabel and tdescription = tdescription,
        OF assms(2,3) content]
    have nm: "mset ?A \<noteq> mset ?B"
      using ms content by blast
    show ?thesis
      using content nm analyze_member [OF assms(1) r] by (simp add: r)
  qed
qed

theorem analyzeDbDifferences_by_hash_sets_witness:
  "(js ''person'', js ''People'', js ''Staff members'') \<in> set ALL_DATA_TABLES \<and>
   (\<exists>d. d \<in> set (analyzeDbDifferences showNat (\<lambda>t. Some [1, 2]) (\<lambda>t. Some [1, 3])) \<and>
      table d = js ''person'' \<and> hasDifferences d \<and> differenceType d = Diff_content \<and>
      differenceDetails d = js ''1 row(s) only in yours, 1 row(s) only in theirs'')"
proof -
  let ?A = "map (hashRow showNat) [1, 2]"
  let ?B = "map (hashRow showNat) [1, 3]"
  have len: "length [1, 2 :: nat] = length [1, 3 :: nat]"
    by simp
  have ne: "set ?A \<noteq> set ?B"
    by (simp add: hashRow_def showNat_digits doubleton_eq_iff)
  have cards: "card (set ?A - set ?B) = 1" "card (set ?B - set ?A) = 1"
    by (simp_all add: hashRow_def showNat_digits insert_Diff_if)
  from analyzeDbDifferences_by_hash_sets [where myDb = "\<lambda>t. Some [1, 2 :: nat]"
      and theirDb = "\<lambda>t. Some [1, 3 :: nat]" and myRows = "[1, 2]" and theirRows = "[1, 3]"
      and JSON_stringify = showNat, OF person_table]
  obtain d where d: "d \<in> set (analyzeDbDifferences showNat (\<lambda>t. Some [1, 2]) (\<lambda>t. Some [1, 3]))"
    "table d = js ''person''"
    and c: "length [1, 2 :: nat] = length [1, 3 :: nat] \<and> set ?A \<noteq> set ?B \<longrightarrow>
      hasDifferences d \<and> differenceType d = Diff_content \<and>
      differenceDetails d = showNat (card (set ?A - set ?B)) @ js '' row(s) only in yours, '' @
        showNat (card (set ?B - set ?A)) @ js '' row(s) only in theirs''"
    by blast
  from c len ne have "hasDifferences d \<and> differenceType d = Diff_content \<and>
      differenceDetails d = showNat (card (set ?A - set ?B)) @ js '' row(s) only in yours, '' @
        showNat (card (set ?B - set ?A)) @ js '' row(s) only in theirs''"
    by blast
  then have "hasDifferences d \<and> differenceType d = Diff_content \<and>
      differenceDetails d = js ''1 row(s) only in yours, 1 row(s) only in theirs''"
    by (simp only: cards showNat_digits js_append [symmetric] append.simps)
  with d person_table show ?thesis
    by blast
qed

text \<open>
  The claim as written has every pair of tables with equal counts and different multisets
  of hashes reported. Rows hashed 1, 1, 2 against rows hashed 1, 2, 2 have equal counts
  and different multisets, but the same set of hashes: no difference is reported.
\<close>

theorem analyzeDbDifferences_counterexample:
  "length [1, 1, 2 :: nat] = length [1, 2, 2 :: nat] \<and>
   mset (map (hashRow showNat) [1, 1, 2]) \<noteq> mset (map (hashRow showNat) [1, 2, 2]) \<and>
   compareTable showNat (\<lambda>t. Some [1, 1, 2]) (\<lambda>t. Some [1, 2, 2])
     (js ''person'', js ''People'', js ''Staff members'')
   = Some \<lparr>table = js ''person'', label = js ''People'', myCount = 3, theirCount = 3,
           hasDifferences = False, differenceType = Diff_none, differenceDetails = []\<rparr>"
proof -
  have "mset (map (hashRow showNat) [1, 1, 2]) \<noteq> mset (map (hashRow showNat) [1, 2, 2])"
    by (simp add: hashRow_def showNat_digits)
  moreover have "compareTable showNat (\<lambda>t. Some [1, 1, 2]) (\<lambda>t. Some [1, 2, 2])
     (js ''person'', js ''People'', js ''Staff members'')
   = Some \<lparr>table = js ''person'', label = js ''People'', myCount = 3, theirCount = 3,
           hasDifferences = False, differenceType = Diff_none, differenceDetails = []\<rparr>"
    using compareTable_same [where myDb = "\<lambda>t. Some [1, 1, 2 :: nat]"
        and theirDb = "\<lambda>t. Some [1, 2, 2 :: nat]" and myRows = "[1, 1, 2]"
        and theirRows = "[1, 2, 2]" and JSON_stringify = showNat
        and tname = "js ''person''" and tlabel = "js ''People''"
        and tdescription = "js ''Staff members''"]
    by (simp add: insert_commute)
  ultimately show ?thesis
    by simp
qed

end
